theory Spec2Isabelle
  imports Complex_Main "HOL-Library.Sublist" "HOL-Library.AList"
begin

section \<open>Strings\<close>

text \<open>
  JavaScript strings are modelled as \<open>string\<close> (a list of 8-bit characters); \<open>length\<close>
  stands for \<open>.length\<close>. The models agree with the source on ASCII text; the
  source counts UTF-16 code units and lower-cases beyond ASCII.
\<close>

text \<open>\<open>s.includes(sub)\<close>: \<open>sub\<close> occurs in \<open>s\<close> as a contiguous substring.\<close>

fun str_includes :: "string \<Rightarrow> string \<Rightarrow> bool" where
  "str_includes [] sub = (sub = [])"
| "str_includes (c # cs) sub = (prefix sub (c # cs) \<or> str_includes cs sub)"

text \<open>\<open>/k1|k2|...|kn/.test(text)\<close> for literal alternatives.\<close>

definition regexAlt :: "string list \<Rightarrow> string \<Rightarrow> bool" where
  "regexAlt alternatives text = list_ex (str_includes text) alternatives"

definition toLowerChar :: "char \<Rightarrow> char" where
  "toLowerChar c =
    (case map_of (zip ''ABCDEFGHIJKLMNOPQRSTUVWXYZ'' ''abcdefghijklmnopqrstuvwxyz'') c of
       Some l \<Rightarrow> l
     | None \<Rightarrow> c)"

definition toLowerCase :: "string \<Rightarrow> string" where
  "toLowerCase s = map toLowerChar s"

text \<open>\<open>parts.join(sep)\<close>.\<close>

fun join :: "string \<Rightarrow> string list \<Rightarrow> string" where
  "join sep [] = []"
| "join sep [x] = x"
| "join sep (x # y # ys) = x @ sep @ join sep (y # ys)"

section \<open>Data model\<close>

record message =
  role :: string
  content :: string

text \<open>
  A thrown value. The provider rejects with an object that may carry a numeric
  \<open>status\<close>; \<open>retryWithBackoff\<close> can also throw its never-assigned \<open>lastError\<close>,
  the value \<open>undefined\<close>.
\<close>

datatype error = Undefined | Thrown "int option" string

fun status :: "error \<Rightarrow> int option" where
  "status Undefined = None"
| "status (Thrown s m) = s"

text \<open>A price entry, \<open>{input, output}\<close> in the source, per million tokens.\<close>

record price =
  price_input :: rat
  price_output :: rat

section \<open>Cost estimator\<close>

datatype token_kind = Input | Output

text \<open>
  \<open>estimateTokens\<close>. \<open>Math.ceil(tokens * 0.3)\<close> is computed in double precision in the
  source; the double nearest to 0.3 lies below 0.3 by less than 2e-17, so for every token
  count below 2^50 the product rounds to the integer \<open>3 * tokens / 10\<close> when that is an
  integer and stays strictly between the neighbouring integers otherwise: the ceiling
  is that of the exact product, which is what the model takes.
\<close>

definition estimateTokens :: "message list \<Rightarrow> token_kind \<Rightarrow> nat" where
  "estimateTokens messages type =
    (let text = join '' '' (map content messages);
         tokens = nat \<lceil>rat_of_nat (length text) / 4\<rceil> + length messages * 4;
         tokens' = (if type = Output then nat \<lceil>rat_of_nat tokens * (3 / 10)\<rceil> else tokens)
     in max tokens' 1)"

text \<open>The price table of \<open>getModelPricing\<close>, in declaration order (per million tokens).\<close>

definition pricing :: "(string \<times> price) list" where
  "pricing =
    [(''gpt-4o'', \<lparr>price_input = 25 / 10, price_output = 10\<rparr>),
     (''gpt-4'', \<lparr>price_input = 30, price_output = 60\<rparr>),
     (''gpt-4-turbo'', \<lparr>price_input = 10, price_output = 30\<rparr>),
     (''gpt-3.5-turbo'', \<lparr>price_input = 5 / 10, price_output = 15 / 10\<rparr>),
     (''claude-3.5-sonnet'', \<lparr>price_input = 3, price_output = 3\<rparr>),
     (''claude-3-opus'', \<lparr>price_input = 15, price_output = 75\<rparr>),
     (''claude-3-sonnet'', \<lparr>price_input = 3, price_output = 15\<rparr>),
     (''claude-3-haiku'', \<lparr>price_input = 25 / 100, price_output = 125 / 100\<rparr>),
     (''gemini-1.5-flash'', \<lparr>price_input = 1, price_output = 1\<rparr>),
     (''gemini-1.5-pro'', \<lparr>price_input = 125 / 100, price_output = 5\<rparr>),
     (''deepseek-v3'', \<lparr>price_input = 28 / 100, price_output = 42 / 100\<rparr>),
     (''deepseek-r1'', \<lparr>price_input = 28 / 100, price_output = 42 / 100\<rparr>),
     (''deepseek-chat'', \<lparr>price_input = 28 / 100, price_output = 42 / 100\<rparr>),
     (''deepseek-reasoner'', \<lparr>price_input = 28 / 100, price_output = 42 / 100\<rparr>)]"

text \<open>
  \<open>for (const [key, value] of Object.entries(table)) if (model.includes(key)) return value\<close>:
  the value of the first key, in declaration order, that occurs in the model identifier.
\<close>

fun firstMatch :: "string \<Rightarrow> (string \<times> 'a) list \<Rightarrow> 'a option" where
  "firstMatch model [] = None"
| "firstMatch model ((key, v) # rest) =
     (if str_includes model key then Some v else firstMatch model rest)"

definition getModelPricing :: "string \<Rightarrow> price" where
  "getModelPricing model =
    (case firstMatch model pricing of
       Some v \<Rightarrow> v
     | None \<Rightarrow> \<lparr>price_input = 1, price_output = 1\<rparr>)"

text \<open>
  \<open>estimateCost\<close>, as the exact value of the expression that the source evaluates in
  double precision.
\<close>

definition estimateCost :: "string \<Rightarrow> message list \<Rightarrow> rat" where
  "estimateCost model messages =
    (let inputTokens = estimateTokens messages Input;
         outputTokens = estimateTokens messages Output;
         pricing = getModelPricing model;
         inputCost = (rat_of_nat inputTokens / 1000000) * price_input pricing;
         outputCost = (rat_of_nat outputTokens / 1000000) * price_output pricing
     in inputCost + outputCost)"

section \<open>Quality detector: the routing decision\<close>

record routing_decision =
  shouldRoute :: bool
  targetModel :: string
  confidence :: rat
  reasoning :: string

text \<open>
  \<open>QualityDetector.estimateComplexity\<close>. The source adds 0.3, 0.4, 0.3 and -0.3 to 0.2
  in double precision and compares the clamped sum with 0.8, 0.3 and 0.6. Of the sixteen
  combinations of the four tests, the sums that meet a threshold are 0.2 + 0.3 + 0.3, which
  is the double 0.8 itself, those with the exact value 0.6, which come out as
  0.6000000000000001, and 0.2 + 0.4 - 0.3, which comes out as 0.3000000000000001: the
  comparisons \<open>> 0.8\<close>, \<open>< 0.6\<close> and \<open>< 0.3\<close> fail on them as they do on the exact
  values. Every other sum is at least 0.1 away from each threshold. So exact rationals
  decide every branch as the source does.
\<close>

definition QualityDetector_estimateComplexity :: "message list \<Rightarrow> rat" where
  "QualityDetector_estimateComplexity messages =
    (let text = toLowerCase (join '' '' (map content messages));
         c0 = 2 / 10;
         c1 = (if length text > 1000 then c0 + 3 / 10 else c0);
         c2 = (if regexAlt [''complex'', ''advanced'', ''detailed'', ''comprehensive''] text
               then c1 + 4 / 10 else c1);
         c3 = (if regexAlt [''analyze'', ''evaluate'', ''compare'', ''critique''] text
               then c2 + 3 / 10 else c2);
         c4 = (if regexAlt [''simple'', ''basic'', ''quick'', ''easy''] text
               then c3 - 3 / 10 else c3)
     in max 0 (min 1 c4))"

definition QualityDetector_detectTaskType :: "message list \<Rightarrow> string list" where
  "QualityDetector_detectTaskType messages =
    (let text = toLowerCase (join '' '' (map content messages))
     in (if regexAlt [''simple'', ''basic'', ''quick'', ''easy'', ''straightforward''] text
         then [''simple''] else [])
      @ (if regexAlt [''code'', ''programming'', ''function''] text then [''coding''] else [])
      @ (if regexAlt [''write'', ''creative'', ''story''] text then [''writing''] else []))"

text \<open>The alternatives of the regular expression that \<open>isCritical\<close> tests.\<close>

definition criticalKeywords :: "string list" where
  "criticalKeywords =
    [''critical'', ''important'', ''medical'', ''legal'', ''financial'', ''safety'',
     ''production'', ''accurate'', ''precise'']"

definition isCritical :: "message list \<Rightarrow> bool" where
  "isCritical messages =
    regexAlt criticalKeywords (toLowerCase (join '' '' (map content messages)))"

definition getOptimalSimpleModel :: "string \<Rightarrow> string list \<Rightarrow> string" where
  "getOptimalSimpleModel requestedModel taskTypes =
    (if List.member taskTypes ''coding'' then ''claude-3-haiku''
     else if List.member taskTypes ''writing'' then ''gpt-3.5-turbo''
     else if List.member taskTypes ''math'' then ''gpt-3.5-turbo''
     else ''gpt-3.5-turbo'')"

definition getOptimalMediumModel :: "string \<Rightarrow> string list \<Rightarrow> string" where
  "getOptimalMediumModel requestedModel taskTypes =
    (if List.member taskTypes ''coding'' \<and> str_includes requestedModel ''gpt-4''
       then ''claude-3.5-sonnet''
     else if List.member taskTypes ''writing'' \<and> str_includes requestedModel ''gpt-4''
       then ''claude-3.5-sonnet''
     else if List.member taskTypes ''analysis'' \<and> requestedModel = ''gpt-4''
       then ''gpt-4o''
     else if str_includes requestedModel ''claude-3-opus''
       then ''claude-3.5-sonnet''
     else requestedModel)"

text \<open>\<open>QualityDetector.shouldRoute\<close>; the threshold argument is not read by the source.\<close>

definition QualityDetector_shouldRoute ::
    "string \<Rightarrow> message list \<Rightarrow> rat \<Rightarrow> routing_decision" where
  "QualityDetector_shouldRoute requestedModel messages qualityThreshold =
    (let complexity = QualityDetector_estimateComplexity messages;
         taskType = QualityDetector_detectTaskType messages;
         critical = isCritical messages
     in if complexity > 8 / 10 \<or> critical then
          \<lparr>shouldRoute = False, targetModel = requestedModel, confidence = 9 / 10,
           reasoning = (if critical then ''Critical task requires premium model''
                        else ''High complexity task requires premium model'')\<rparr>
        else if complexity < 3 / 10 then
          (let target = getOptimalSimpleModel requestedModel taskType
           in \<lparr>shouldRoute = True, targetModel = target, confidence = 85 / 100,
               reasoning = ''Simple task suitable for '' @ target\<rparr>)
        else if complexity < 6 / 10 then
          (let target = getOptimalMediumModel requestedModel taskType
           in \<lparr>shouldRoute = (target \<noteq> requestedModel), targetModel = target,
               confidence = 8 / 10,
               reasoning = (if target \<noteq> requestedModel
                            then ''Medium complexity task can use '' @ target
                            else ''No suitable alternative found'')\<rparr>)
        else
          \<lparr>shouldRoute = False, targetModel = requestedModel, confidence = 7 / 10,
           reasoning = ''Complex task requires original model''\<rparr>)"

section \<open>Model router\<close>

datatype complexity = SimpleTask | MediumTask | ComplexTask

definition estimateComplexity :: "message list \<Rightarrow> complexity" where
  "estimateComplexity messages =
    (let totalLength = foldl (\<lambda>sum m. sum + length (content m)) 0 messages;
         hasSystemPrompt = list_ex (\<lambda>m. role m = ''system'') messages;
         messageCount = length messages
     in if totalLength < 100 \<and> \<not> hasSystemPrompt \<and> messageCount \<le> 2 then SimpleTask
        else if totalLength < 500 \<and> messageCount \<le> 5 then MediumTask
        else ComplexTask)"

definition detectTaskType :: "message list \<Rightarrow> string list" where
  "detectTaskType messages =
    (let text = toLowerCase (join '' '' (map content messages))
     in (if regexAlt [''code'', ''programming'', ''function'', ''debug'', ''algorithm''] text
         then [''coding''] else [])
      @ (if regexAlt [''write'', ''creative'', ''story'', ''article'', ''content''] text
         then [''writing''] else [])
      @ (if regexAlt [''analyze'', ''research'', ''evaluate'', ''compare''] text
         then [''analysis''] else [])
      @ (if regexAlt [''translate'', ''language''] text then [''translation''] else [])
      @ (if regexAlt [''math'', ''calculate'', ''solve'', ''equation''] text
         then [''math''] else [])
      @ (if regexAlt [''simple'', ''basic'', ''quick'', ''easy''] text
         then [''simple''] else []))"

text \<open>
  The part of the configuration the router reads. The caller's routing policy returns a
  model, \<open>null\<close> (\<open>None\<close>) or throws (\<open>Inl\<close>); a thrown error is logged and swallowed.
\<close>

record routing_config =
  smartRouting :: bool
  routingPolicy :: "(string \<Rightarrow> message list \<Rightarrow> error + string option) option"

definition selectOptimalModel :: "'a routing_config_scheme \<Rightarrow> string \<Rightarrow> message list \<Rightarrow> string" where
  "selectOptimalModel cfg requestedModel messages =
    (if \<not> smartRouting cfg then requestedModel
     else
       (let routed =
              (case routingPolicy cfg of
                 None \<Rightarrow> None
               | Some policy \<Rightarrow>
                   (case policy requestedModel messages of
                      Inr (Some r) \<Rightarrow> (if r \<noteq> [] then Some r else None)
                    | Inr None \<Rightarrow> None
                    | Inl e \<Rightarrow> None))
        in case routed of
             Some r \<Rightarrow> r
           | None \<Rightarrow>
               if str_includes requestedModel ''vision'' then requestedModel
               else
                 (let complexity = estimateComplexity messages;
                      taskType = detectTaskType messages
                  in if str_includes requestedModel ''gpt'' \<and> complexity = SimpleTask
                          \<and> str_includes requestedModel ''gpt-4''
                       then ''gpt-3.5-turbo''
                     else if str_includes requestedModel ''gpt'' \<and> complexity = MediumTask
                          \<and> requestedModel = ''gpt-4''
                       then ''gpt-4o''
                     else if str_includes requestedModel ''gpt'' \<and> List.member taskType ''coding''
                          \<and> str_includes requestedModel ''gpt-4''
                       then ''claude-3.5-sonnet''
                     else if str_includes requestedModel ''claude'' \<and> complexity = SimpleTask
                          \<and> str_includes requestedModel ''claude-3-opus''
                       then ''claude-3-haiku''
                     else if str_includes requestedModel ''claude'' \<and> complexity = MediumTask
                          \<and> str_includes requestedModel ''claude-3-opus''
                       then ''claude-3.5-sonnet''
                     else if str_includes requestedModel ''claude'' \<and> complexity = SimpleTask
                          \<and> str_includes requestedModel ''claude-3-sonnet''
                       then ''claude-3-haiku''
                     else
                       (let routingDecision =
                              QualityDetector_shouldRoute requestedModel messages (8 / 10)
                        in if shouldRoute routingDecision
                              \<and> confidence routingDecision > 8 / 10
                           then targetModel routingDecision
                           else requestedModel))))"

record savings_report =
  currentCost :: rat
  optimizedCost :: rat
  savings :: rat
  savingsPercentage :: rat
  recommendedModel :: string

definition calculateSavings :: "'a routing_config_scheme \<Rightarrow> string \<Rightarrow> message list \<Rightarrow> savings_report" where
  "calculateSavings cfg requestedModel messages =
    (let currentCost = estimateCost requestedModel messages;
         recommendedModel = selectOptimalModel cfg requestedModel messages;
         optimizedCost = estimateCost recommendedModel messages;
         savings = currentCost - optimizedCost;
         savingsPercentage = (if currentCost > 0 then (savings / currentCost) * 100 else 0)
     in \<lparr>currentCost = currentCost, optimizedCost = optimizedCost, savings = savings,
         savingsPercentage = savingsPercentage, recommendedModel = recommendedModel\<rparr>)"

text \<open>
  The claim's reading of the estimator, for comparison with \<open>estimateCost\<close>: the
  character count is the total over the message contents, the input token count is not
  floored, the output token count is.
\<close>

definition spec_estimateCost :: "string \<Rightarrow> message list \<Rightarrow> rat" where
  "spec_estimateCost model messages =
    (let totalCharacterCount = (\<Sum>m\<leftarrow>messages. length (content m));
         messageCount = length messages;
         inputTokens = nat \<lceil>rat_of_nat totalCharacterCount / 4\<rceil> + 4 * messageCount;
         outputTokens = max 1 (nat \<lceil>rat_of_nat inputTokens * (3 / 10)\<rceil>);
         p = (case List.find (\<lambda>kv. str_includes model (fst kv)) pricing of
                Some kv \<Rightarrow> snd kv
              | None \<Rightarrow> \<lparr>price_input = 1, price_output = 1\<rparr>)
     in rat_of_nat inputTokens / 1000000 * price_input p
        + rat_of_nat outputTokens / 1000000 * price_output p)"

section \<open>Cache layer\<close>

text \<open>
  The cache is a JavaScript \<open>Map\<close>: keys are distinct and iteration follows insertion
  order, which the stable sort of \<open>setCache\<close> observes on ties. It is modelled as an
  association list in insertion order; \<open>map_of\<close> is \<open>Map.get\<close>, \<open>AList.delete\<close> is
  \<open>Map.delete\<close> and \<open>AList.update\<close> is \<open>Map.set\<close> (an existing key keeps its place, a
  new one goes last). Times are milliseconds, as \<open>Date.now()\<close> gives them; each
  operation reads the clock as the single instant \<open>now\<close>.
\<close>

record 'r cache_entry =
  result :: 'r
  timestamp :: int
  ttl :: int
  lastAccessed :: "int option"

type_synonym 'r cache = "(string \<times> 'r cache_entry) list"

definition getFromCache :: "int \<Rightarrow> string \<Rightarrow> 'r cache \<Rightarrow> 'r option \<times> 'r cache" where
  "getFromCache now key cache =
    (case map_of cache key of
       None \<Rightarrow> (None, cache)
     | Some entry \<Rightarrow>
         if now - timestamp entry > ttl entry then (None, AList.delete key cache)
         else (Some (result entry),
               AList.update key (entry\<lparr>lastAccessed := Some now\<rparr>) cache))"

text \<open>\<open>a[1].lastAccessed || 0\<close>, the sort key of an entry.\<close>

definition accessTime :: "string \<times> 'r cache_entry \<Rightarrow> int" where
  "accessTime kv = (case lastAccessed (snd kv) of Some t \<Rightarrow> t | None \<Rightarrow> 0)"

text \<open>
  \<open>setCache\<close>; the argument \<open>None\<close> is an omitted \<open>ttl\<close>, which takes the default of the
  signature. \<open>Array.prototype.sort\<close> is stable, as \<open>sort_key\<close> is.
  \<open>Math.floor(maxCacheSize * 0.2)\<close> is 200.
\<close>

definition setCache :: "int \<Rightarrow> string \<Rightarrow> 'r \<Rightarrow> int option \<Rightarrow> 'r cache \<Rightarrow> 'r cache" where
  "setCache now key res ttlArg cache =
    (let ttl' = (case ttlArg of Some t \<Rightarrow> t | None \<Rightarrow> 3600000);
         maxCacheSize = 1000;
         cache' =
           (if length cache \<ge> maxCacheSize then
              (let entries = sort_key accessTime cache;
                   toRemove = 200
               in foldl (\<lambda>c kv. AList.delete (fst kv) c) cache (take toRemove entries))
            else cache)
     in AList.update key
          \<lparr>result = res, timestamp = now, ttl = ttl', lastAccessed = Some now\<rparr> cache')"

section \<open>Cache key\<close>

record params =
  model :: string
  messages :: "message list"
  temperature :: "rat option"
  max_tokens :: "nat option"

record normalized =
  norm_model :: string
  norm_messages :: "message list"
  norm_temperature :: rat
  norm_max_tokens :: "nat option"

definition isSpace :: "char \<Rightarrow> bool" where
  "isSpace c = List.member [CHR '' '', CHR 0x09, CHR 0x0A, CHR 0x0B, CHR 0x0C, CHR 0x0D] c"

text \<open>\<open>s.trim()\<close> on ASCII white space.\<close>

definition trim :: "string \<Rightarrow> string" where
  "trim s = rev (dropWhile isSpace (rev (dropWhile isSpace s)))"

text \<open>
  The object that \<open>getCacheKey\<close> serialises. \<open>params.temperature || 0.7\<close> replaces every
  falsy temperature, an absent one and 0 alike.
\<close>

definition normalize :: "'a params_scheme \<Rightarrow> normalized" where
  "normalize p =
    \<lparr>norm_model = model p,
     norm_messages = map (\<lambda>m. \<lparr>role = role m, content = trim (content m)\<rparr>) (messages p),
     norm_temperature =
       (case temperature p of None \<Rightarrow> 7 / 10 | Some t \<Rightarrow> if t = 0 then 7 / 10 else t),
     norm_max_tokens = max_tokens p\<rparr>"

text \<open>
  \<open>getCacheKey\<close>. \<open>JSON.stringify\<close> belongs to the platform and is taken as the argument
  \<open>stringify\<close>.
\<close>

definition getCacheKey :: "(normalized \<Rightarrow> string) \<Rightarrow> string \<Rightarrow> 'a params_scheme \<Rightarrow> string" where
  "getCacheKey stringify provider p = provider @ '':'' @ stringify (normalize p)"

section \<open>Resilience layer\<close>

definition is4xx :: "error \<Rightarrow> bool" where
  "is4xx e = (case status e of Some st \<Rightarrow> 400 \<le> st \<and> st < 500 | None \<Rightarrow> False)"

text \<open>
  The loop of \<open>retryWithBackoff\<close> from index \<open>i\<close>. The operation \<open>fn\<close> acts on a state
  \<open>'s\<close> and resolves (\<open>Inr\<close>) or rejects (\<open>Inl\<close>); \<open>sleep ms\<close> is the effect of waiting
  \<open>ms\<close> milliseconds.
\<close>

function retryLoop ::
    "('s \<Rightarrow> (error + 'a) \<times> 's) \<Rightarrow> (nat \<Rightarrow> 's \<Rightarrow> 's) \<Rightarrow> int \<Rightarrow> int \<Rightarrow> error \<Rightarrow> 's
      \<Rightarrow> (error + 'a) \<times> 's" where
  "retryLoop fn sleep retries i lastError s =
    (if i < retries then
       (case fn s of
          (Inr v, s') \<Rightarrow> (Inr v, s')
        | (Inl e, s') \<Rightarrow>
            if is4xx e then (Inl e, s')
            else if i = retries - 1 then (Inl e, s')
            else retryLoop fn sleep retries (i + 1) e (sleep (2 ^ nat i * 1000) s'))
     else (Inl lastError, s))"
  by pat_completeness auto
termination
  by (relation "measure (\<lambda>(fn, sleep, retries, i, lastError, s). nat (retries - i))") auto

declare retryLoop.simps [simp del]

definition retryWithBackoff ::
    "('s \<Rightarrow> (error + 'a) \<times> 's) \<Rightarrow> (nat \<Rightarrow> 's \<Rightarrow> 's) \<Rightarrow> int \<Rightarrow> 's \<Rightarrow> (error + 'a) \<times> 's" where
  "retryWithBackoff fn sleep retries s = retryLoop fn sleep retries 0 Undefined s"

text \<open>\<open>this.config.maxRetries || 3\<close>.\<close>

definition defaultRetries :: "int option \<Rightarrow> int" where
  "defaultRetries maxRetries =
    (case maxRetries of None \<Rightarrow> 3 | Some n \<Rightarrow> if n = 0 then 3 else n)"

text \<open>
  An operation given by the outcome of each of its invocations, on a state that counts
  the invocations and records the waits.
\<close>

definition scripted :: "(nat \<Rightarrow> error + 'a) \<Rightarrow> nat \<times> nat list \<Rightarrow> (error + 'a) \<times> (nat \<times> nat list)" where
  "scripted outcomes s = (outcomes (fst s), (fst s + 1, snd s))"

definition sleepLog :: "nat \<Rightarrow> nat \<times> nat list \<Rightarrow> nat \<times> nat list" where
  "sleepLog ms s = (fst s, snd s @ [ms])"

text \<open>An attempt is followed by another one only when it rejects with a non-4xx error.\<close>

definition retryable :: "error + 'a \<Rightarrow> bool" where
  "retryable outcome = (case outcome of Inl e \<Rightarrow> \<not> is4xx e | Inr v \<Rightarrow> False)"

section \<open>Tracking and its circuit breaker\<close>

text \<open>
  What \<open>fetch\<close> to the tracking sink gives: a response with its status and status text,
  a thrown network error, or the abort of the 5 second timeout.
\<close>

datatype sink_outcome = Response int string | NetworkError | AbortError

text \<open>
  The breaker's two counters of the instance, with the observable effects of tracking:
  the number of requests sent to the sink and the warnings printed.
\<close>

record tracker =
  apiFailureCount :: nat
  lastApiFailure :: int
  sinkCalls :: nat
  warnings :: "string list"

definition isApiDown :: "int \<Rightarrow> tracker \<Rightarrow> bool" where
  "isApiDown now t = (apiFailureCount t \<ge> 5 \<and> now - lastApiFailure t < 60000)"

definition recordApiFailure :: "int \<Rightarrow> tracker \<Rightarrow> tracker" where
  "recordApiFailure now t = t\<lparr>apiFailureCount := apiFailureCount t + 1, lastApiFailure := now\<rparr>"

definition resetApiFailures :: "tracker \<Rightarrow> tracker" where
  "resetApiFailures t = t\<lparr>apiFailureCount := 0\<rparr>"

definition warn :: "string \<Rightarrow> tracker \<Rightarrow> tracker" where
  "warn line t = t\<lparr>warnings := warnings t @ [line]\<rparr>"

text \<open>
  \<open>trackRun\<close>. \<open>sink k\<close> is the sink's answer to the request number \<open>k\<close>; \<open>now\<close> is the
  clock when the breaker is consulted and \<open>later\<close> the clock when the answer is in.
\<close>

definition trackRun :: "(nat \<Rightarrow> sink_outcome) \<Rightarrow> int \<Rightarrow> int \<Rightarrow> tracker \<Rightarrow> tracker" where
  "trackRun sink now later t =
    (if isApiDown now t then t
     else
       (let t' = t\<lparr>sinkCalls := sinkCalls t + 1\<rparr>
        in case sink (sinkCalls t) of
             Response st statusText \<Rightarrow>
               if \<not> (200 \<le> st \<and> st \<le> 299) then
                 (let t'' = recordApiFailure later t'
                  in if st = 401 \<or> st = 403
                     then warn ''[CostLens] Invalid API key - tracking disabled. Your app will continue to work.'' t''
                     else warn (''[CostLens] Tracking failed: '' @ statusText) t'')
               else resetApiFailures t'
           | NetworkError \<Rightarrow>
               warn ''[CostLens] Tracking error (non-fatal):'' (recordApiFailure later t')
           | AbortError \<Rightarrow> recordApiFailure later t'))"

text \<open>
  The later generation of the wrapper puts one guard in front: without an API key
  nothing is tracked.
\<close>

definition trackRun_instant ::
    "string option \<Rightarrow> (nat \<Rightarrow> sink_outcome) \<Rightarrow> int \<Rightarrow> int \<Rightarrow> tracker \<Rightarrow> tracker" where
  "trackRun_instant apiKey sink now later t =
    (if apiKey = None \<or> apiKey = Some [] then t else trackRun sink now later t)"

text \<open>A series of tracking attempts, each with its two clock readings.\<close>

fun trackRuns :: "(nat \<Rightarrow> sink_outcome) \<Rightarrow> (int \<times> int) list \<Rightarrow> tracker \<Rightarrow> tracker" where
  "trackRuns sink [] t = t"
| "trackRuns sink ((now, later) # rest) t = trackRuns sink rest (trackRun sink now later t)"

section \<open>Call orchestrator\<close>

text \<open>
  A provider response, as far as the orchestrator reads it: the message content of each
  choice (empty when absent) and the token counts of \<open>usage\<close>.
\<close>

record response =
  choices :: "string list"
  prompt_tokens :: nat
  completion_tokens :: nat
  total_tokens :: nat

text \<open>A middleware hook returns its result or throws; a thrown error is logged and dropped.\<close>

record middleware =
  before :: "(params \<Rightarrow> error + params) option"
  after :: "(response \<Rightarrow> error + response) option"

record config = routing_config +
  enableCache :: bool
  maxRetries :: "int option"
  middleware :: "middleware list"
  autoFallback :: bool
  autoOptimize :: bool
  costLimit :: "rat option"
  qualityValidator :: "(string \<Rightarrow> string \<Rightarrow> rat) option"

text \<open>The constructor's defaults, with nothing set by the caller.\<close>

definition defaultConfig :: config where
  "defaultConfig =
    \<lparr>smartRouting = True, routingPolicy = None, enableCache = True, maxRetries = Some 3,
     middleware = [], autoFallback = True, autoOptimize = False, costLimit = None,
     qualityValidator = None\<rparr>"

record wrapper_options =
  cacheTTL :: "int option"
  fallbackModels :: "string list option"
  maxCost :: "rat option"

text \<open>
  The collaborators of a call. \<open>provider k p\<close> is what the wrapped client's create call
  gives on its invocation number \<open>k\<close> with parameters \<open>p\<close>; \<open>routingEnabled\<close> is the
  answer of \<open>checkRoutingEnabled\<close>; \<open>optimize\<close> is the prompt optimiser; \<open>remoteCache\<close>
  gives the response of a remote cache hit; \<open>sink\<close> is the tracking sink;
  \<open>stringify\<close> and \<open>stringifyMessages\<close> are \<open>JSON.stringify\<close> on the normalised
  request and on the message list; \<open>analyzeResponse\<close> is the quality score of
  \<open>QualityDetector.analyzeResponse\<close>, a double that the gate only compares with 0.7.
\<close>

record env =
  provider :: "nat \<Rightarrow> params \<Rightarrow> error + response"
  routingEnabled :: bool
  optimize :: "string \<Rightarrow> string"
  remoteCache :: "string \<Rightarrow> message list \<Rightarrow> response option"
  sink :: "nat \<Rightarrow> sink_outcome"
  stringify :: "normalized \<Rightarrow> string"
  stringifyMessages :: "message list \<Rightarrow> string"
  analyzeResponse :: "string \<Rightarrow> string \<Rightarrow> rat"

text \<open>
  The state a call acts on: the models the provider has been invoked with, in order, the
  instance's cache and tracking state, and the clock in milliseconds, which the model
  advances by the backoff waits only.
\<close>

record world =
  providerCalls :: "string list"
  cacheStore :: "response cache"
  tracking :: tracker
  clock :: int

definition callProvider :: "env \<Rightarrow> params \<Rightarrow> string \<Rightarrow> world \<Rightarrow> (error + response) \<times> world" where
  "callProvider e p m w =
    (provider e (length (providerCalls w)) (p\<lparr>model := m\<rparr>),
     w\<lparr>providerCalls := providerCalls w @ [m]\<rparr>)"

definition sleep :: "nat \<Rightarrow> world \<Rightarrow> world" where
  "sleep ms w = w\<lparr>clock := clock w + int ms\<rparr>"

definition track :: "env \<Rightarrow> world \<Rightarrow> world" where
  "track e w = w\<lparr>tracking := trackRun (sink e) (clock w) (clock w) (tracking w)\<rparr>"

text \<open>
  \<open>runMiddleware\<close> for one kind of hook: every hook receives the data the chain started
  with, and the result is that of the last hook that did not throw.
\<close>

definition runMiddleware :: "('m \<Rightarrow> ('d \<Rightarrow> error + 'd) option) \<Rightarrow> 'm list \<Rightarrow> 'd \<Rightarrow> 'd" where
  "runMiddleware hook mws d =
    foldl (\<lambda>res mw. case hook mw of
                       None \<Rightarrow> res
                     | Some h \<Rightarrow> (case h d of Inr r \<Rightarrow> r | Inl err \<Rightarrow> res))
          d mws"

definition getDefaultFallbacks :: "string \<Rightarrow> string list" where
  "getDefaultFallbacks m =
    (case firstMatch m
       [(''gpt-4o'', [''gpt-4-turbo'', ''claude-3.5-sonnet'', ''gpt-3.5-turbo'']),
        (''claude-3.5-sonnet'', [''gpt-4o'', ''claude-3-sonnet'', ''gpt-3.5-turbo'']),
        (''gemini-1.5-flash'', [''gemini-1.5-pro'', ''gpt-3.5-turbo'', ''claude-3-haiku'']),
        (''gpt-4'', [''gpt-4o'', ''gpt-4-turbo'', ''gpt-3.5-turbo'']),
        (''gpt-4-turbo'', [''gpt-4o'', ''gpt-4'', ''gpt-3.5-turbo'']),
        (''gpt-3.5-turbo'', [''gpt-4o'', ''gemini-1.5-flash'', ''claude-3-haiku'']),
        (''claude-3-opus'', [''claude-3.5-sonnet'', ''claude-3-sonnet'', ''gpt-4o'']),
        (''claude-3-sonnet'', [''claude-3.5-sonnet'', ''claude-3-haiku'', ''gpt-3.5-turbo'']),
        (''claude-3-haiku'', [''gpt-3.5-turbo'', ''gemini-1.5-flash'', ''claude-3-sonnet'']),
        (''gemini-1.5-pro'', [''gemini-1.5-flash'', ''gpt-4o'', ''gpt-3.5-turbo'']),
        (''deepseek-v3'',
           [''deepseek-chat'', ''deepseek-reasoner'', ''gemini-1.5-flash'', ''gpt-3.5-turbo'']),
        (''deepseek-r1'',
           [''deepseek-chat'', ''deepseek-reasoner'', ''gemini-1.5-flash'', ''gpt-3.5-turbo'']),
        (''deepseek-chat'',
           [''deepseek-reasoner'', ''deepseek-v3'', ''gemini-1.5-flash'', ''gpt-3.5-turbo'']),
        (''deepseek-reasoner'',
           [''deepseek-chat'', ''deepseek-v3'', ''gemini-1.5-flash'', ''gpt-3.5-turbo''])] of
       Some chain \<Rightarrow> chain
     | None \<Rightarrow> [])"

text \<open>
  \<open>options?.maxCost || self.config.costLimit || Infinity\<close>; \<open>None\<close> is no limit. The
  check compares the exact cost with the limit; the source compares the cost rounded to
  a double, which can differ from it for a limit within one rounding step of the cost.
\<close>

definition costLimitOf :: "config \<Rightarrow> wrapper_options \<Rightarrow> rat option" where
  "costLimitOf cfg options =
    (let configured = (case costLimit cfg of
                         Some c \<Rightarrow> if c \<noteq> 0 then Some c else None
                       | None \<Rightarrow> None)
     in case maxCost options of
          Some c \<Rightarrow> if c \<noteq> 0 then Some c else configured
        | None \<Rightarrow> configured)"

definition costError :: error where
  "costError = Thrown None ''Estimated cost exceeds limit''"

text \<open>
  \<open>trackError\<close> reads \<open>error.message\<close> before it sends anything: on the value \<open>undefined\<close>
  that is a \<open>TypeError\<close>, which the call then rejects with, and nothing is tracked.
\<close>

definition typeError :: error where
  "typeError = Thrown None ''TypeError: Cannot read properties of undefined''"

definition trackError :: "env \<Rightarrow> error \<Rightarrow> world \<Rightarrow> (error + unit) \<times> world" where
  "trackError e err w =
    (case err of
       Undefined \<Rightarrow> (Inl typeError, w)
     | Thrown st msg \<Rightarrow> (Inr (), track e w))"

definition costCheck :: "config \<Rightarrow> wrapper_options \<Rightarrow> params \<Rightarrow> error option" where
  "costCheck cfg options p =
    (case costLimitOf cfg options of
       None \<Rightarrow> None
     | Some limit \<Rightarrow>
         if estimateCost (model p) (messages p) > limit then Some costError else None)"

definition cacheTTLSet :: "wrapper_options \<Rightarrow> bool" where
  "cacheTTLSet options = (case cacheTTL options of Some t \<Rightarrow> t \<noteq> 0 | None \<Rightarrow> False)"

definition fallbackChain :: "config \<Rightarrow> wrapper_options \<Rightarrow> params \<Rightarrow> string list" where
  "fallbackChain cfg options p =
    (case fallbackModels options of
       Some chain \<Rightarrow> chain
     | None \<Rightarrow> if autoFallback cfg then getDefaultFallbacks (model p) else [])"

subsection \<open>The OpenAI wrapper\<close>

definition openaiKey :: "env \<Rightarrow> string \<Rightarrow> message list \<Rightarrow> string" where
  "openaiKey e m msgs =
    getCacheKey (stringify e) ''openai''
      \<lparr>model = m, messages = msgs, temperature = None, max_tokens = None\<rparr>"

text \<open>
  The call up to the provider: prompt optimisation, routing, the cost check, the two
  cache look-ups and the before hooks. The result is the outcome of a call that ends
  here (\<open>Inl\<close>) or the parameters to call the provider with (\<open>Inr\<close>).
\<close>

definition prepareOpenAI ::
    "config \<Rightarrow> env \<Rightarrow> params \<Rightarrow> wrapper_options \<Rightarrow> world
      \<Rightarrow> ((error + response) \<times> world) + (params \<times> world)" where
  "prepareOpenAI cfg e p0 options w =
    (let msgs = (if autoOptimize cfg
                 then map (\<lambda>m. if content m \<noteq> [] then m\<lparr>content := optimize e (content m)\<rparr> else m)
                        (messages p0)
                 else messages p0);
         originalModel = model p0;
         routed = (if smartRouting cfg \<and> routingEnabled e
                   then selectOptimalModel cfg originalModel msgs else originalModel);
         p1 = p0\<lparr>model := routed, messages := msgs\<rparr>
     in case costCheck cfg options p1 of
          Some err \<Rightarrow> Inl (Inl err, w)
        | None \<Rightarrow>
            (let (localCached, w1) =
                   (if enableCache cfg \<or> cacheTTLSet options
                    then (let (hit, c) = getFromCache (clock w) (openaiKey e routed msgs) (cacheStore w)
                          in (hit, w\<lparr>cacheStore := c\<rparr>))
                    else (None, w))
             in case localCached of
                  Some r \<Rightarrow> Inl (Inr r, w1)
                | None \<Rightarrow>
                    (case (if enableCache cfg then remoteCache e routed msgs else None) of
                       Some r \<Rightarrow> Inl (Inr r, w1)
                     | None \<Rightarrow> Inr (runMiddleware before (middleware cfg) p1, w1))))"

text \<open>
  The fallback loop: each model of the chain is tried once, in order, until one
  resolves. The result is the response if any, the model used, the last error and the
  state.
\<close>

fun tryFallbacks ::
    "env \<Rightarrow> params \<Rightarrow> string list \<Rightarrow> string \<Rightarrow> error \<Rightarrow> world
      \<Rightarrow> response option \<times> string \<times> error \<times> world" where
  "tryFallbacks e p [] usedModel lastError w = (None, usedModel, lastError, w)"
| "tryFallbacks e p (m # ms) usedModel lastError w =
    (case callProvider e p m w of
       (Inr r, w') \<Rightarrow> (Some r, m, lastError, w')
     | (Inl err, w') \<Rightarrow> tryFallbacks e p ms usedModel err w')"

text \<open>The primary model with retries, then the fallback chain.\<close>

definition callWithFallback ::
    "config \<Rightarrow> env \<Rightarrow> wrapper_options \<Rightarrow> params \<Rightarrow> world
      \<Rightarrow> response option \<times> string \<times> error \<times> world" where
  "callWithFallback cfg e options p w =
    (let chain = fallbackChain cfg options p
     in case retryWithBackoff (callProvider e p (model p)) sleep (defaultRetries (maxRetries cfg)) w of
          (Inr r, w1) \<Rightarrow> (Some r, model p, Undefined, w1)
        | (Inl err, w1) \<Rightarrow>
            (let shouldTryFallback = (case status err of
                                        None \<Rightarrow> True
                                      | Some st \<Rightarrow> st = 0 \<or> st \<ge> 500)
             in if autoFallback cfg \<and> chain \<noteq> [] \<and> shouldTryFallback
                then tryFallbacks e p
                       (take (nat (min (int (length chain)) (defaultRetries (maxRetries cfg)))) chain)
                       (model p) err w1
                else (None, model p, err, w1)))"

text \<open>The score of the quality gate: the caller's validator when there is one.\<close>

definition qualityScore :: "config \<Rightarrow> env \<Rightarrow> response \<Rightarrow> message list \<Rightarrow> rat" where
  "qualityScore cfg e processedResult msgs =
    (let responseText = (case choices processedResult of [] \<Rightarrow> [] | c # cs \<Rightarrow> c);
         messagesJson = stringifyMessages e msgs
     in case qualityValidator cfg of
          Some validator \<Rightarrow> validator responseText messagesJson
        | None \<Rightarrow> analyzeResponse e responseText messagesJson)"

text \<open>
  The call from the provider's answer on: the after hooks, the quality gate, the cache
  store and tracking; without a response, tracking of the error and the rejection with
  the last error. The store to the remote cache and the error hooks are requests whose
  outcome the call does not read; they are left out.
\<close>

definition finishOpenAI ::
    "config \<Rightarrow> env \<Rightarrow> wrapper_options \<Rightarrow> string \<Rightarrow> params
      \<Rightarrow> response option \<times> string \<times> error \<times> world \<Rightarrow> (error + response) \<times> world" where
  "finishOpenAI cfg e options originalModel p called =
    (case called of
       (None, usedModel, lastError, w) \<Rightarrow>
         (case trackError e lastError w of
            (Inl err, w') \<Rightarrow> (Inl err, w')
          | (Inr u, w') \<Rightarrow> (Inl lastError, w'))
     | (Some r, usedModel, lastError, w) \<Rightarrow>
         (let processedResult = runMiddleware after (middleware cfg) r
          in if originalModel \<noteq> usedModel
                \<and> qualityScore cfg e processedResult (messages p) < 7 / 10
             then (case callProvider e p originalModel w of
                     (Inl err, w') \<Rightarrow> (Inl err, w')
                   | (Inr fallbackResult, w') \<Rightarrow>
                       (Inr (runMiddleware after (middleware cfg) fallbackResult), w'))
             else
               (let w1 = (if enableCache cfg \<or> cacheTTLSet options
                          then w\<lparr>cacheStore :=
                                   setCache (clock w) (openaiKey e usedModel (messages p))
                                     processedResult
                                     (Some (case cacheTTL options of Some t \<Rightarrow> t | None \<Rightarrow> 3600000))
                                     (cacheStore w)\<rparr>
                          else w)
                in (Inr processedResult, track e w1))))"

definition wrapOpenAI_create ::
    "config \<Rightarrow> env \<Rightarrow> params \<Rightarrow> wrapper_options \<Rightarrow> world \<Rightarrow> (error + response) \<times> world" where
  "wrapOpenAI_create cfg e p0 options w =
    (case prepareOpenAI cfg e p0 options w of
       Inl ended \<Rightarrow> ended
     | Inr (p, w1) \<Rightarrow>
         finishOpenAI cfg e options (model p0) p (callWithFallback cfg e options p w1))"

subsection \<open>The Anthropic wrapper\<close>

text \<open>
  The loop over \<open>modelsToTry\<close>: each model with retries; the first response is processed,
  stored, tracked and returned; the error of the last model is tracked and thrown.
\<close>

fun tryModels ::
    "config \<Rightarrow> env \<Rightarrow> wrapper_options \<Rightarrow> params \<Rightarrow> string list \<Rightarrow> error \<Rightarrow> world
      \<Rightarrow> (error + response) \<times> world" where
  "tryModels cfg e options p [] lastError w = (Inl lastError, w)"
| "tryModels cfg e options p (m # ms) lastError w =
    (case retryWithBackoff (callProvider e p m) sleep (defaultRetries (maxRetries cfg)) w of
       (Inr r, w1) \<Rightarrow>
         (let processedResult = runMiddleware after (middleware cfg) r;
              w2 = (if enableCache cfg \<and> cacheTTLSet options
                    then w1\<lparr>cacheStore :=
                              setCache (clock w1) (getCacheKey (stringify e) ''anthropic'' p)
                                processedResult (cacheTTL options) (cacheStore w1)\<rparr>
                    else w1)
          in (Inr processedResult, track e w2))
     | (Inl err, w1) \<Rightarrow>
         if ms = [] then
           (case trackError e err w1 of
              (Inl err', w2) \<Rightarrow> (Inl err', w2)
            | (Inr u, w2) \<Rightarrow> (Inl err, w2))
         else tryModels cfg e options p ms err w1)"

definition wrapAnthropic_create ::
    "config \<Rightarrow> env \<Rightarrow> params \<Rightarrow> wrapper_options \<Rightarrow> world \<Rightarrow> (error + response) \<times> world" where
  "wrapAnthropic_create cfg e p0 options w =
    (let routed = (if smartRouting cfg
                   then selectOptimalModel cfg (model p0) (messages p0) else model p0);
         p1 = p0\<lparr>model := routed\<rparr>
     in case costCheck cfg options p1 of
          Some err \<Rightarrow> (Inl err, w)
        | None \<Rightarrow>
            (let (cached, w1) =
                   (if enableCache cfg
                    then (let (hit, c) = getFromCache (clock w)
                                           (getCacheKey (stringify e) ''anthropic'' p1) (cacheStore w)
                          in (hit, w\<lparr>cacheStore := c\<rparr>))
                    else (None, w))
             in case cached of
                  Some r \<Rightarrow> (Inr r, w1)
                | None \<Rightarrow>
                    (let p = runMiddleware before (middleware cfg) p1
                     in tryModels cfg e options p (model p # fallbackChain cfg options p)
                          Undefined w1)))"

section \<open>Auxiliary notions of the statements\<close>

text \<open>The entries that \<open>setCache\<close> removes from a full cache.\<close>

definition oldest :: "'r cache \<Rightarrow> (string \<times> 'r cache_entry) set" where
  "oldest cache = set (take 200 (sort_key accessTime cache))"

text \<open>\<open>retryWithBackoff\<close> on a scripted operation: the outcome, the attempts and the waits.\<close>

definition runScript :: "(nat \<Rightarrow> error + 'a) \<Rightarrow> int \<Rightarrow> (error + 'a) \<times> nat \<times> nat list" where
  "runScript outcomes retries = retryWithBackoff (scripted outcomes) sleepLog retries (0, [])"

text \<open>A tracking request succeeds when the sink answers with a 2xx status.\<close>

definition sinkOk :: "sink_outcome \<Rightarrow> bool" where
  "sinkOk outcome =
    (case outcome of
       Response st txt \<Rightarrow> 200 \<le> st \<and> st \<le> 299
     | NetworkError \<Rightarrow> False
     | AbortError \<Rightarrow> False)"

subsection \<open>Concrete inputs\<close>

definition freshTracker :: tracker where
  "freshTracker = \<lparr>apiFailureCount = 0, lastApiFailure = 0, sinkCalls = 0, warnings = []\<rparr>"

definition freshWorld :: world where
  "freshWorld = \<lparr>providerCalls = [], cacheStore = [], tracking = freshTracker, clock = 0\<rparr>"

definition noOptions :: wrapper_options where
  "noOptions = \<lparr>cacheTTL = None, fallbackModels = None, maxCost = None\<rparr>"

definition hi :: "message list" where
  "hi = [\<lparr>role = ''user'', content = ''Hi''\<rparr>]"

text \<open>A provider that always rejects with status 400, every other collaborator healthy.\<close>

definition always400 :: env where
  "always400 =
    \<lparr>provider = (\<lambda>k p. Inl (Thrown (Some 400) ''Bad Request'')),
     routingEnabled = True, optimize = (\<lambda>s. s), remoteCache = (\<lambda>m msgs. None),
     sink = (\<lambda>k. Response 200 ''OK''), stringify = norm_model,
     stringifyMessages = (\<lambda>msgs. ''[]''), analyzeResponse = (\<lambda>r m. 1)\<rparr>"

text \<open>A provider that answers every call with the name of the model it was called with.\<close>

definition echoModel :: env where
  "echoModel =
    \<lparr>provider = (\<lambda>k p. Inr \<lparr>choices = [model p], prompt_tokens = 5, completion_tokens = 2,
                              total_tokens = 7\<rparr>),
     routingEnabled = True, optimize = (\<lambda>s. s), remoteCache = (\<lambda>m msgs. None),
     sink = (\<lambda>k. Response 200 ''OK''), stringify = norm_model,
     stringifyMessages = (\<lambda>msgs. ''[]''), analyzeResponse = (\<lambda>r m. 1)\<rparr>"

text \<open>The default configuration with a validator that scores every response 0.5.\<close>

definition strictConfig :: config where
  "strictConfig = defaultConfig\<lparr>qualityValidator := Some (\<lambda>responseText messagesJson. 1 / 2)\<rparr>"

definition gpt4Hi :: params where
  "gpt4Hi = \<lparr>model = ''gpt-4'', messages = hi, temperature = None, max_tokens = None\<rparr>"

definition opusHello :: params where
  "opusHello =
    \<lparr>model = ''claude-3-opus'', messages = [\<lparr>role = ''user'', content = ''Hello''\<rparr>],
     temperature = None, max_tokens = Some 100\<rparr>"

text \<open>
  A full cache: 1000 entries with distinct keys, in insertion order. The first one
  inserted is the most recently read (at time 5000); entry \<open>i\<close> after it was last read
  at time \<open>i\<close>.
\<close>

definition fullCache :: "unit cache" where
  "fullCache =
    map (\<lambda>i. (replicate i CHR ''k'',
              \<lparr>result = (), timestamp = 0, ttl = 3600000,
               lastAccessed = Some (if i = 0 then 5000 else int i)\<rparr>))
        [0..<1000]"

definition oneEntry :: "string cache" where
  "oneEntry = [(''k'', \<lparr>result = ''v'', timestamp = 0, ttl = 100, lastAccessed = Some 0\<rparr>)]"

section \<open>Cost estimator: properties\<close>

lemma length_join:
  "length (join '' '' xs) = sum_list (map length xs) + (length xs - 1)"
  by (induction "'' ''" xs rule: join.induct) auto

lemma firstMatch_find:
  "firstMatch mdl kvs = map_option snd (List.find (\<lambda>kv. str_includes mdl (fst kv)) kvs)"
  by (induction kvs) auto

lemma firstMatch_pred:
  "firstMatch mdl kvs = Some v \<Longrightarrow> list_all (\<lambda>kv. P (snd kv)) kvs \<Longrightarrow> P v"
  by (induction kvs) (auto split: if_splits)

lemma pricing_positive:
  "list_all (\<lambda>kv. 0 < price_input (snd kv) \<and> 0 < price_output (snd kv)) pricing"
  by (simp add: pricing_def)

lemma getModelPricing_positive:
  "0 < price_input (getModelPricing mdl) \<and> 0 < price_output (getModelPricing mdl)"
proof (cases "firstMatch mdl pricing")
  case None
  then show ?thesis by (simp add: getModelPricing_def)
next
  case (Some v)
  from firstMatch_pred [OF Some pricing_positive] Some show ?thesis
    by (simp add: getModelPricing_def)
qed

lemma estimateTokens_positive: "0 < estimateTokens msgs kind"
  by (simp add: estimateTokens_def Let_def max_def)

lemma estimateCost_positive: "0 < estimateCost mdl msgs"
proof -
  have "0 < rat_of_nat (estimateTokens msgs Input) / 1000000 * price_input (getModelPricing mdl)"
    using getModelPricing_positive [of mdl] estimateTokens_positive [of msgs Input] by simp
  moreover
  have "0 < rat_of_nat (estimateTokens msgs Output) / 1000000 * price_output (getModelPricing mdl)"
    using getModelPricing_positive [of mdl] estimateTokens_positive [of msgs Output] by simp
  ultimately show ?thesis by (simp add: estimateCost_def Let_def)
qed

text \<open>
  C4, as amended. For every model identifier and message list, \<open>estimateCost\<close> is
  inputTokens / 1e6 * inputPrice + outputTokens / 1e6 * outputPrice, where the character
  count is that of the contents joined by single spaces (the total of the content lengths
  plus one separator between neighbours), the raw token count is the ceiling of a quarter
  of it plus 4 per message, the input tokens are the raw count floored at 1, the output
  tokens are the ceiling of 0.3 times the raw count floored at 1, and the prices are those
  of the first key of the price table that occurs in the model identifier, 1.0 and 1.0
  when none does. The result is positive, also for the empty message list.
\<close>

theorem estimateCost_formula:
  "estimateCost mdl msgs =
    (let n = length msgs;
         chars = (\<Sum>m\<leftarrow>msgs. length (content m)) + (n - 1);
         raw = nat \<lceil>rat_of_nat chars / 4\<rceil> + 4 * n;
         inputTokens = max 1 raw;
         outputTokens = max 1 (nat \<lceil>rat_of_nat raw * (3 / 10)\<rceil>);
         p = (case List.find (\<lambda>kv. str_includes mdl (fst kv)) pricing of
                Some kv \<Rightarrow> snd kv
              | None \<Rightarrow> \<lparr>price_input = 1, price_output = 1\<rparr>)
     in rat_of_nat inputTokens / 1000000 * price_input p
        + rat_of_nat outputTokens / 1000000 * price_output p)
   \<and> 0 < estimateCost mdl msgs"
proof -
  have len: "length (join '' '' (map content msgs))
      = (\<Sum>m\<leftarrow>msgs. length (content m)) + (length msgs - 1)"
    by (simp add: length_join comp_def)
  have p: "getModelPricing mdl =
      (case List.find (\<lambda>kv. str_includes mdl (fst kv)) pricing of
         Some kv \<Rightarrow> snd kv
       | None \<Rightarrow> \<lparr>price_input = 1, price_output = 1\<rparr>)"
    by (simp add: getModelPricing_def firstMatch_find split: option.splits)
  show ?thesis
    unfolding estimateCost_def estimateTokens_def Let_def len p [symmetric]
    using estimateCost_positive [of mdl msgs]
    by (simp add: estimateCost_def estimateTokens_def Let_def len max.commute mult.commute)
qed

text \<open>
  C4 as stated fails: with two messages of four characters each the claim's formula
  counts 8 characters, 10 input and 3 output tokens, the code counts the separator too,
  9 characters, 11 input and 4 output tokens. On the empty message list the claim's
  formula has no input token, the code has one.
\<close>

theorem estimateCost_counts_separators:
  "estimateCost ''gpt-4''
     [\<lparr>role = ''user'', content = ''abcd''\<rparr>, \<lparr>role = ''user'', content = ''abcd''\<rparr>]
     = 570 / 1000000
   \<and> spec_estimateCost ''gpt-4''
     [\<lparr>role = ''user'', content = ''abcd''\<rparr>, \<lparr>role = ''user'', content = ''abcd''\<rparr>]
     = 480 / 1000000
   \<and> estimateCost ''gpt-4''
     [\<lparr>role = ''user'', content = ''abcd''\<rparr>, \<lparr>role = ''user'', content = ''abcd''\<rparr>]
     \<noteq> spec_estimateCost ''gpt-4''
     [\<lparr>role = ''user'', content = ''abcd''\<rparr>, \<lparr>role = ''user'', content = ''abcd''\<rparr>]
   \<and> estimateCost ''gpt-4'' [] = 90 / 1000000
   \<and> spec_estimateCost ''gpt-4'' [] = 60 / 1000000"
  by code_simp

section \<open>Model router: properties\<close>

text \<open>
  C5. With the default configuration, \<open>selectOptimalModel('gpt-4', [{role:'user',
  content:'Hi'}])\<close> is \<open>'gpt-3.5-turbo'\<close>, and \<open>calculateSavings\<close> on the same request
  reports a savings percentage above 90.
\<close>

theorem simple_gpt4_request_routes_to_gpt35:
  "selectOptimalModel defaultConfig ''gpt-4'' [\<lparr>role = ''user'', content = ''Hi''\<rparr>]
     = ''gpt-3.5-turbo''
   \<and> savingsPercentage
        (calculateSavings defaultConfig ''gpt-4'' [\<lparr>role = ''user'', content = ''Hi''\<rparr>]) > 90"
  by code_simp

section \<open>Quality detector: properties\<close>

lemma str_includes_sublist: "str_includes s sub \<longleftrightarrow> sublist sub s"
  by (induction s) (auto simp: sublist_Cons_right)

lemma sublist_join: "x \<in> set xs \<Longrightarrow> sublist x (join sep xs)"
proof (induction sep xs rule: join.induct)
  case (3 sep a b ys)
  show ?case
  proof (cases "x = a")
    case True
    then show ?thesis by (simp add: sublist_append)
  next
    case False
    with 3 have "sublist x (join sep (b # ys))" by simp
    then show ?thesis by (simp add: sublist_append)
  qed
qed auto

lemma toLowerCase_sublist: "sublist a b \<Longrightarrow> sublist (toLowerCase a) (toLowerCase b)"
  unfolding sublist_def toLowerCase_def by (metis map_append)

lemma regexAlt_mono:
  assumes "sublist a b" and "regexAlt kws a"
  shows "regexAlt kws b"
  using assms
  by (auto simp: regexAlt_def list_ex_iff str_includes_sublist intro: sublist_order.order_trans)

lemma isCritical_keyword:
  assumes "m \<in> set msgs" and "regexAlt criticalKeywords (toLowerCase (content m))"
  shows "isCritical msgs"
proof -
  have "sublist (content m) (join '' '' (map content msgs))"
    using assms(1) by (intro sublist_join) simp
  then have "sublist (toLowerCase (content m)) (toLowerCase (join '' '' (map content msgs)))"
    by (rule toLowerCase_sublist)
  from regexAlt_mono [OF this assms(2)] show ?thesis
    by (simp add: isCritical_def)
qed

text \<open>
  C6. The decision of \<open>QualityDetector.shouldRoute\<close>, its cases read in order. When the
  complexity exceeds 0.8 or the prompt is critical, it does not route, keeps the requested
  model and has confidence 0.9; a message whose content contains a criticality keyword
  (such as "medical") makes the prompt critical. Otherwise, below complexity 0.3 it
  routes with confidence 0.85, to \<open>claude-3-haiku\<close> for a coding task and to
  \<open>gpt-3.5-turbo\<close> for every other; from 0.3 and below 0.6 it has confidence 0.8, its
  target is the medium-tier model of the task type, and it routes exactly when that
  differs from the requested model; from 0.6 to 0.8 it does not route, keeps the
  requested model and has confidence 0.7.
\<close>

theorem shouldRoute_policy:
  "let c = QualityDetector_estimateComplexity msgs;
       tt = QualityDetector_detectTaskType msgs;
       d = QualityDetector_shouldRoute requestedModel msgs qualityThreshold
   in (c > 8 / 10 \<or> isCritical msgs \<longrightarrow>
         \<not> shouldRoute d \<and> targetModel d = requestedModel \<and> confidence d = 9 / 10)
    \<and> ((\<exists>m \<in> set msgs. regexAlt criticalKeywords (toLowerCase (content m))) \<longrightarrow>
         \<not> shouldRoute d \<and> targetModel d = requestedModel \<and> confidence d = 9 / 10)
    \<and> (\<not> isCritical msgs \<and> c < 3 / 10 \<longrightarrow>
         shouldRoute d \<and> confidence d = 85 / 100
         \<and> targetModel d =
             (if List.member tt ''coding'' then ''claude-3-haiku'' else ''gpt-3.5-turbo''))
    \<and> (\<not> isCritical msgs \<and> 3 / 10 \<le> c \<and> c < 6 / 10 \<longrightarrow>
         confidence d = 8 / 10 \<and> targetModel d = getOptimalMediumModel requestedModel tt
         \<and> (shouldRoute d \<longleftrightarrow> getOptimalMediumModel requestedModel tt \<noteq> requestedModel))
    \<and> (\<not> isCritical msgs \<and> 6 / 10 \<le> c \<and> c \<le> 8 / 10 \<longrightarrow>
         \<not> shouldRoute d \<and> targetModel d = requestedModel \<and> confidence d = 7 / 10)"
  using isCritical_keyword [of _ msgs]
  by (auto simp: QualityDetector_shouldRoute_def Let_def getOptimalSimpleModel_def)

theorem shouldRoute_policy_witness:
  "(isCritical [\<lparr>role = ''user'', content = ''I need Medical advice''\<rparr>]
    \<and> (\<exists>m \<in> set [\<lparr>role = ''user'', content = ''I need Medical advice''\<rparr>].
          regexAlt criticalKeywords (toLowerCase (content m)))
    \<and> \<not> shouldRoute (QualityDetector_shouldRoute ''gpt-4''
            [\<lparr>role = ''user'', content = ''I need Medical advice''\<rparr>] (3 / 4))
    \<and> targetModel (QualityDetector_shouldRoute ''gpt-4''
            [\<lparr>role = ''user'', content = ''I need Medical advice''\<rparr>] (3 / 4)) = ''gpt-4''
    \<and> confidence (QualityDetector_shouldRoute ''gpt-4''
            [\<lparr>role = ''user'', content = ''I need Medical advice''\<rparr>] (3 / 4)) = 9 / 10)
   \<and> (QualityDetector_estimateComplexity hi < 3 / 10
    \<and> shouldRoute (QualityDetector_shouldRoute ''gpt-4'' hi (3 / 4))
    \<and> targetModel (QualityDetector_shouldRoute ''gpt-4'' hi (3 / 4)) = ''gpt-3.5-turbo''
    \<and> confidence (QualityDetector_shouldRoute ''gpt-4'' hi (3 / 4)) = 85 / 100)
   \<and> (QualityDetector_estimateComplexity [\<lparr>role = ''user'', content = ''Analyze this code''\<rparr>] = 5 / 10
    \<and> shouldRoute (QualityDetector_shouldRoute ''gpt-4''
            [\<lparr>role = ''user'', content = ''Analyze this code''\<rparr>] (3 / 4))
    \<and> targetModel (QualityDetector_shouldRoute ''gpt-4''
            [\<lparr>role = ''user'', content = ''Analyze this code''\<rparr>] (3 / 4)) = ''claude-3.5-sonnet''
    \<and> confidence (QualityDetector_shouldRoute ''gpt-4''
            [\<lparr>role = ''user'', content = ''Analyze this code''\<rparr>] (3 / 4)) = 8 / 10)
   \<and> (QualityDetector_estimateComplexity [\<lparr>role = ''user'', content = ''A detailed report''\<rparr>] = 6 / 10
    \<and> \<not> shouldRoute (QualityDetector_shouldRoute ''gpt-4''
            [\<lparr>role = ''user'', content = ''A detailed report''\<rparr>] (3 / 4))
    \<and> targetModel (QualityDetector_shouldRoute ''gpt-4''
            [\<lparr>role = ''user'', content = ''A detailed report''\<rparr>] (3 / 4)) = ''gpt-4''
    \<and> confidence (QualityDetector_shouldRoute ''gpt-4''
            [\<lparr>role = ''user'', content = ''A detailed report''\<rparr>] (3 / 4)) = 7 / 10)"
proof -
  let ?m1 = "[\<lparr>role = ''user'', content = ''I need Medical advice''\<rparr>]"
  let ?m3 = "[\<lparr>role = ''user'', content = ''Analyze this code''\<rparr>]"
  let ?m4 = "[\<lparr>role = ''user'', content = ''A detailed report''\<rparr>]"
  have p1: "isCritical ?m1"
           "\<exists>m \<in> set ?m1. regexAlt criticalKeywords (toLowerCase (content m))"
    by code_simp+
  have p2: "\<not> isCritical hi" "QualityDetector_estimateComplexity hi = 2 / 10"
           "\<not> List.member (QualityDetector_detectTaskType hi) ''coding''"
    by code_simp+
  have p3: "\<not> isCritical ?m3" "QualityDetector_estimateComplexity ?m3 = 5 / 10"
           "getOptimalMediumModel ''gpt-4'' (QualityDetector_detectTaskType ?m3) = ''claude-3.5-sonnet''"
    by code_simp+
  have p4: "\<not> isCritical ?m4" "QualityDetector_estimateComplexity ?m4 = 6 / 10"
    by code_simp+
  show ?thesis
    using shouldRoute_policy [of ?m1 "''gpt-4''" "3 / 4"] p1
      shouldRoute_policy [of hi "''gpt-4''" "3 / 4"] p2
      shouldRoute_policy [of ?m3 "''gpt-4''" "3 / 4"] p3
      shouldRoute_policy [of ?m4 "''gpt-4''" "3 / 4"] p4
    by (simp add: Let_def)
qed

section \<open>Resilience layer: properties\<close>

text \<open>One turn of the retry loop on a scripted operation.\<close>

lemma retryLoop_step:
  "retryLoop (scripted outs) sleepLog retries (int i) le (i, ds) =
    (if int i < retries then
       (if retryable (outs i) \<and> int i \<noteq> retries - 1
        then (case outs i of
                Inl e \<Rightarrow>
                  retryLoop (scripted outs) sleepLog retries (int (Suc i)) e
                    (Suc i, ds @ [2 ^ i * 1000])
              | Inr v \<Rightarrow> (outs i, (Suc i, ds)))
        else (outs i, (Suc i, ds)))
     else (Inl le, (i, ds)))"
  by (subst retryLoop.simps)
     (auto simp: scripted_def sleepLog_def retryable_def add.commute split: sum.splits)

lemma retryLoop_stop:
  assumes "i \<le> k" and "int k < retries"
    and "\<forall>j. i \<le> j \<and> j < k \<longrightarrow> retryable (outs j)"
    and "\<not> retryable (outs k) \<or> int k = retries - 1"
  shows "retryLoop (scripted outs) sleepLog retries (int i) le (i, ds) =
         (outs k, (Suc k, ds @ map (\<lambda>j. 2 ^ j * 1000) [i..<k]))"
  using assms
proof (induction "k - i" arbitrary: i le ds)
  case 0
  then have "i = k" by simp
  with 0 show ?case by (subst retryLoop_step) auto
next
  case (Suc d)
  then have lt: "i < k" by simp
  with Suc.prems have r: "retryable (outs i)" and ne: "int i \<noteq> retries - 1"
    and lt': "int i < retries"
    by auto
  from r obtain e where e: "outs i = Inl e"
    by (auto simp: retryable_def split: sum.splits)
  have "retryLoop (scripted outs) sleepLog retries (int (Suc i)) e (Suc i, ds @ [2 ^ i * 1000]) =
        (outs k, (Suc k, (ds @ [2 ^ i * 1000]) @ map (\<lambda>j. 2 ^ j * 1000) [Suc i..<k]))"
    using Suc.hyps(2) lt Suc.prems by (intro Suc.hyps(1)) auto
  then show ?case using r ne lt' e lt
    by (subst retryLoop_step) (simp add: upt_conv_Cons)
qed

lemma retryLoop_bound:
  "fst (snd (retryLoop (scripted outs) sleepLog retries (int i) le (i, ds))) \<le> max i (nat retries)"
proof (induction "nat (retries - int i)" arbitrary: i le ds)
  case 0
  then show ?case by (subst retryLoop_step) auto
next
  case (Suc d)
  then have lt: "Suc i \<le> nat retries" by linarith
  have "\<And>e. fst (snd (retryLoop (scripted outs) sleepLog retries (int (Suc i)) e
                        (Suc i, ds @ [2 ^ i * 1000])))
      \<le> max (Suc i) (nat retries)"
    using Suc.hyps(2) by (intro Suc.hyps(1)) auto
  with lt have "\<And>e. fst (snd (retryLoop (scripted outs) sleepLog retries (int (Suc i)) e
                        (Suc i, ds @ [2 ^ i * 1000])))
      \<le> nat retries"
    by (simp add: max_def)
  with lt show ?case
    by (subst retryLoop_step) (auto split: sum.splits simp: max_def)
qed

text \<open>
  C3. \<open>retryWithBackoff(operation, maxAttempts)\<close> on an operation whose invocation
  number \<open>j\<close> has the outcome \<open>outcomes j\<close>. It attempts the operation at most
  \<open>maxAttempts\<close> times, and not at all for a bound of 0 or less, when it throws its
  unset \<open>lastError\<close>. When the attempts before attempt \<open>k\<close> reject with errors outside
  [400,500) and attempt \<open>k\<close> resolves, rejects with a status in [400,500) or is the last
  one allowed, the call ends with the outcome of attempt \<open>k\<close> after \<open>k + 1\<close> attempts,
  having waited \<open>2^j\<close> seconds (\<open>2^j * 1000\<close> ms) after each earlier attempt \<open>j\<close>. An
  operation that rejects once with status 500 and then resolves is attempted exactly
  twice and the call resolves with its value. The bound is 3 when the configuration
  gives none, as in the default configuration.
\<close>

theorem retryWithBackoff_attempts:
  "(fst (snd (runScript outcomes retries)) \<le> nat retries)
   \<and> (int k < retries \<and> (\<forall>j < k. retryable (outcomes j))
        \<and> (\<not> retryable (outcomes k) \<or> int k = retries - 1)
      \<longrightarrow> runScript outcomes retries = (outcomes k, Suc k, map (\<lambda>j. 2 ^ j * 1000) [0..<k]))
   \<and> (int k < retries \<and> (\<forall>j < k. retryable (outcomes j))
        \<and> outcomes k = Inl err \<and> status err = Some st \<and> 400 \<le> st \<and> st < 500
      \<longrightarrow> runScript outcomes retries = (Inl err, Suc k, map (\<lambda>j. 2 ^ j * 1000) [0..<k]))
   \<and> (outcomes 0 = Inl (Thrown (Some 500) msg) \<and> outcomes 1 = Inr v \<and> 2 \<le> retries
      \<longrightarrow> runScript outcomes retries = (Inr v, 2, [1000]))
   \<and> (retries \<le> 0 \<longrightarrow> runScript outcomes retries = (Inl Undefined, 0, []))
   \<and> defaultRetries None = 3 \<and> defaultRetries (Some 0) = 3
   \<and> defaultRetries (maxRetries defaultConfig) = 3"
proof (intro conjI impI)
  show "fst (snd (runScript outcomes retries)) \<le> nat retries"
    using retryLoop_bound [of outcomes retries 0 Undefined "[]"]
    by (simp add: runScript_def retryWithBackoff_def)
next
  assume "int k < retries \<and> (\<forall>j < k. retryable (outcomes j))
        \<and> (\<not> retryable (outcomes k) \<or> int k = retries - 1)"
  then show "runScript outcomes retries = (outcomes k, Suc k, map (\<lambda>j. 2 ^ j * 1000) [0..<k])"
    using retryLoop_stop [of 0 k retries outcomes Undefined "[]"]
    by (simp add: runScript_def retryWithBackoff_def)
next
  assume a: "int k < retries \<and> (\<forall>j < k. retryable (outcomes j))
        \<and> outcomes k = Inl err \<and> status err = Some st \<and> 400 \<le> st \<and> st < 500"
  then have "\<not> retryable (outcomes k)" by (simp add: retryable_def is4xx_def)
  with a show "runScript outcomes retries = (Inl err, Suc k, map (\<lambda>j. 2 ^ j * 1000) [0..<k])"
    using retryLoop_stop [of 0 k retries outcomes Undefined "[]"]
    by (simp add: runScript_def retryWithBackoff_def)
next
  assume a: "outcomes 0 = Inl (Thrown (Some 500) msg) \<and> outcomes 1 = Inr v \<and> 2 \<le> retries"
  then have "retryable (outcomes 0)" "\<not> retryable (outcomes 1)"
    by (simp_all add: retryable_def is4xx_def)
  with a show "runScript outcomes retries = (Inr v, 2, [1000])"
    using retryLoop_stop [of 0 1 retries outcomes Undefined "[]"]
    by (simp add: runScript_def retryWithBackoff_def)
next
  assume "retries \<le> 0"
  then show "runScript outcomes retries = (Inl Undefined, 0, [])"
    using retryLoop_step [of outcomes retries 0 Undefined "[]"]
    by (simp add: runScript_def retryWithBackoff_def)
qed (simp_all add: defaultRetries_def defaultConfig_def)

theorem retryWithBackoff_attempts_witness:
  "runScript (\<lambda>j. if j = 0 then Inl (Thrown (Some 500) ''Server Error'') else Inr ''done'') 3
     = (Inr ''done'', 2, [1000])
   \<and> runScript (\<lambda>j. if j = 0 then Inl (Thrown (Some 500) ''Server Error'') else Inr ''done'') 3
     = (Inr ''done'', Suc 1, map (\<lambda>j. 2 ^ j * 1000) [0..<1])
   \<and> (runScript (\<lambda>j. Inl (Thrown (Some 400) ''Bad Request'')) 3 :: (error + string) \<times> nat \<times> nat list)
     = (Inl (Thrown (Some 400) ''Bad Request''), Suc 0, map (\<lambda>j. 2 ^ j * 1000) [0..<0])
   \<and> (runScript (\<lambda>j. Inl (Thrown None ''ECONNRESET'')) 3 :: (error + string) \<times> nat \<times> nat list)
     = (Inl (Thrown None ''ECONNRESET''), Suc 2, map (\<lambda>j. 2 ^ j * 1000) [0..<2])
   \<and> (runScript (\<lambda>j. Inr ''done'') 0 :: (error + string) \<times> nat \<times> nat list)
     = (Inl Undefined, 0, [])"
proof -
  let ?once = "\<lambda>j::nat. if j = 0 then Inl (Thrown (Some 500) ''Server Error'') else Inr ''done''"
  let ?bad = "\<lambda>j::nat. (Inl (Thrown (Some 400) ''Bad Request'') :: error + string)"
  let ?net = "\<lambda>j::nat. (Inl (Thrown None ''ECONNRESET'') :: error + string)"
  let ?ok = "\<lambda>j::nat. (Inr ''done'' :: error + string)"
  have a: "runScript ?once 3 = (Inr ''done'', 2, [1000])"
    using retryWithBackoff_attempts [of ?once 3 1 _ _ "''Server Error''" "''done''"] by simp
  have b: "runScript ?once 3 = (Inr ''done'', Suc 1, map (\<lambda>j. 2 ^ j * 1000) [0..<1])"
    using retryWithBackoff_attempts [of ?once 3 1]
    by (simp add: retryable_def is4xx_def)
  have c: "runScript ?bad 3 = (Inl (Thrown (Some 400) ''Bad Request''), Suc 0, map (\<lambda>j. 2 ^ j * 1000) [0..<0])"
    using retryWithBackoff_attempts [of ?bad 3 0 "Thrown (Some 400) ''Bad Request''" 400]
    by simp
  have d: "runScript ?net 3 = (Inl (Thrown None ''ECONNRESET''), Suc 2, map (\<lambda>j. 2 ^ j * 1000) [0..<2])"
    using retryWithBackoff_attempts [of ?net 3 2]
    by (simp add: retryable_def is4xx_def)
  have e: "runScript ?ok 0 = (Inl Undefined, 0, [])"
    using retryWithBackoff_attempts [of ?ok 0] by simp
  from a b c d e show ?thesis by blast
qed

section \<open>Cache layer: properties\<close>

lemma map_of_evict:
  "map_of (foldl (\<lambda>c kv. AList.delete (fst kv) c) cache es) = map_of cache |` (- fst ` set es)"
proof (induction es arbitrary: cache)
  case Nil
  show ?case by simp
next
  case (Cons x es)
  show ?case
    by (simp add: Cons.IH AList.delete_conv' restrict_map_def fun_eq_iff)
qed

lemma distinct_evict:
  "distinct (map fst cache) \<Longrightarrow>
   distinct (map fst (foldl (\<lambda>c kv. AList.delete (fst kv) c) cache es))"
  by (induction es arbitrary: cache) (simp_all add: AList.distinct_delete)

lemma sorted_take_drop:
  assumes "sorted (map f xs)" and "a \<in> set (take n xs)" and "b \<in> set (drop n xs)"
  shows "f a \<le> f b"
proof -
  have "sorted (map f (take n xs) @ map f (drop n xs))"
    using assms(1) by (simp flip: map_append)
  then show ?thesis using assms(2,3) by (auto simp: sorted_append)
qed

lemma distinct_keys_distinct: "distinct (map fst xs) \<Longrightarrow> distinct xs"
  by (simp add: distinct_map)

lemma oldest_props:
  assumes len: "length cache \<ge> 1000" and dist: "distinct (map fst cache)"
  shows "oldest cache \<subseteq> set cache" and "card (oldest cache) = 200"
    and "\<forall>a \<in> oldest cache. \<forall>b \<in> set cache - oldest cache. accessTime a \<le> accessTime b"
proof -
  let ?s = "sort_key accessTime cache"
  show "oldest cache \<subseteq> set cache"
    unfolding oldest_def using set_take_subset [of 200 ?s] by simp
  have "distinct (take 200 ?s)" using dist by (simp add: distinct_keys_distinct)
  then have "card (set (take 200 ?s)) = length (take 200 ?s)" by (rule distinct_card)
  then show "card (oldest cache) = 200" using len by (simp add: oldest_def)
  show "\<forall>a \<in> oldest cache. \<forall>b \<in> set cache - oldest cache. accessTime a \<le> accessTime b"
  proof (intro ballI)
    fix a b assume a: "a \<in> oldest cache" and b: "b \<in> set cache - oldest cache"
    have "set cache = set (take 200 ?s) \<union> set (drop 200 ?s)"
      by (metis append_take_drop_id set_append set_sort)
    with b have "b \<in> set (drop 200 ?s)" by (auto simp: oldest_def)
    with a show "accessTime a \<le> accessTime b"
      unfolding oldest_def by (intro sorted_take_drop [of accessTime ?s a 200 b]) simp_all
  qed
qed

text \<open>Both operations keep the keys distinct, as a \<open>Map\<close> does.\<close>

lemma cache_keys_distinct:
  assumes "distinct (map fst cache)"
  shows "distinct (map fst (snd (getFromCache now key cache)))"
    and "distinct (map fst (setCache now key res ttlArg cache))"
  using assms
  by (auto simp: getFromCache_def setCache_def Let_def AList.distinct_update AList.distinct_delete
      distinct_evict split: option.splits)

lemma length_distinct_keys: "distinct (map fst xs) \<Longrightarrow> length xs = card (fst ` set xs)"
  by (metis distinct_card length_map set_map)

lemma evict_keys:
  "fst ` set (foldl (\<lambda>c kv. AList.delete (fst kv) c) cache es) = fst ` set cache - fst ` set es"
proof (induction es arbitrary: cache)
  case Nil
  show ?case by simp
next
  case (Cons x es)
  have "fst ` set (AList.delete (fst x) cache) = fst ` set cache - {fst x}"
    using AList.delete_keys [of "fst x" cache] by (metis set_map set_removeAll)
  then show ?case by (auto simp: Cons.IH)
qed

lemma evict_length:
  assumes len: "length cache \<ge> 1000" and dist: "distinct (map fst cache)"
  shows "length (foldl (\<lambda>c kv. AList.delete (fst kv) c) cache
                   (take 200 (sort_key accessTime cache))) = length cache - 200"
proof -
  let ?s = "sort_key accessTime cache"
  let ?E = "fst ` set (take 200 ?s)"
  have ds: "distinct (map fst ?s)"
    using dist by (metis distinct_map distinct_sort set_sort)
  then have "distinct (map fst (take 200 ?s))" by (simp add: take_map [symmetric] del: take_map)
  then have "card ?E = length (take 200 ?s)" by (metis distinct_card length_map set_map)
  then have cE: "card ?E = 200" using len by simp
  have sub: "?E \<subseteq> fst ` set cache"
    using set_take_subset [of 200 ?s] by auto
  have "length (foldl (\<lambda>c kv. AList.delete (fst kv) c) cache (take 200 ?s))
      = card (fst ` set cache - ?E)"
    using length_distinct_keys [OF distinct_evict [OF dist, of "take 200 ?s"]]
    by (simp add: evict_keys)
  also have "\<dots> = card (fst ` set cache) - card ?E"
    using sub by (intro card_Diff_subset) (auto intro: finite_subset)
  also have "\<dots> = length cache - 200"
    using length_distinct_keys [OF dist] cE by simp
  finally show ?thesis .
qed

lemma length_update_Suc: "length (AList.update k v al) \<le> Suc (length al)"
  by (induction al) auto

lemma length_update_le: "length al < n \<Longrightarrow> length (AList.update k v al) \<le> n"
  using length_update_Suc [of k v al] by linarith

text \<open>The cache never holds more than 1000 entries, so a removal starts from exactly 1000.\<close>

lemma setCache_size:
  assumes "distinct (map fst cache)" and "length cache \<le> 1000"
  shows "length (setCache now key res ttlArg cache) \<le> 1000"
proof (cases "length cache < 1000")
  case True
  from length_update_le [OF True] True show ?thesis
    by (simp add: setCache_def Let_def)
next
  case False
  with assms(2) have len: "length cache \<ge> 1000" by simp
  let ?c = "foldl (\<lambda>c kv. AList.delete (fst kv) c) cache (take 200 (sort_key accessTime cache))"
  have "length ?c < 1000" using evict_length [OF len assms(1)] assms(2) by simp
  from length_update_le [OF this] len show ?thesis
    by (simp add: setCache_def Let_def)
qed

text \<open>
  C7. \<open>getFromCache\<close> misses on an absent key and leaves the cache as it is; on an entry
  with \<open>now - timestamp > ttl\<close> it misses and deletes the entry; otherwise it returns the
  stored value and sets the entry's last-accessed time to \<open>now\<close>. \<open>setCache\<close> below
  1000 entries stores the new entry and removes nothing; at 1000 entries or more it first
  removes 200 entries (20% of the maximum), the \<open>lastAccessed\<close> field of each of them
  (0 when unset) at most that of every entry it keeps, and then stores the new entry. The
  new entry carries the caller's TTL, and 3600000 ms (3600 seconds) when the caller gives
  none.
\<close>

theorem cache_get_set:
  "(map_of cache key = None \<longrightarrow> getFromCache now key cache = (None, cache))
   \<and> (map_of cache key = Some e \<and> now - timestamp e > ttl e \<longrightarrow>
        fst (getFromCache now key cache) = None
        \<and> map_of (snd (getFromCache now key cache)) = (map_of cache)(key := None))
   \<and> (map_of cache key = Some e \<and> \<not> now - timestamp e > ttl e \<longrightarrow>
        fst (getFromCache now key cache) = Some (result e)
        \<and> map_of (snd (getFromCache now key cache))
            = (map_of cache)(key \<mapsto> e\<lparr>lastAccessed := Some now\<rparr>))
   \<and> (length cache < 1000 \<longrightarrow>
        map_of (setCache now key res ttlArg cache)
          = (map_of cache)(key \<mapsto> \<lparr>result = res, timestamp = now,
               ttl = (case ttlArg of Some t \<Rightarrow> t | None \<Rightarrow> 3600000),
               lastAccessed = Some now\<rparr>))
   \<and> (length cache \<ge> 1000 \<and> distinct (map fst cache) \<longrightarrow>
        (\<exists>evicted. evicted \<subseteq> set cache \<and> card evicted = 200
           \<and> (\<forall>a \<in> evicted. \<forall>b \<in> set cache - evicted.
                 (case lastAccessed (snd a) of Some t \<Rightarrow> t | None \<Rightarrow> 0)
                   \<le> (case lastAccessed (snd b) of Some t \<Rightarrow> t | None \<Rightarrow> 0))
           \<and> map_of (setCache now key res ttlArg cache)
               = (map_of cache |` (- fst ` evicted))(key \<mapsto> \<lparr>result = res, timestamp = now,
                    ttl = (case ttlArg of Some t \<Rightarrow> t | None \<Rightarrow> 3600000),
                    lastAccessed = Some now\<rparr>)))"
proof (intro conjI impI)
  assume "length cache \<ge> 1000 \<and> distinct (map fst cache)"
  then have len: "length cache \<ge> 1000" and dist: "distinct (map fst cache)" by simp_all
  have "map_of (setCache now key res ttlArg cache)
      = (map_of cache |` (- fst ` oldest cache))(key \<mapsto> \<lparr>result = res, timestamp = now,
           ttl = (case ttlArg of Some t \<Rightarrow> t | None \<Rightarrow> 3600000), lastAccessed = Some now\<rparr>)"
    using len by (simp add: setCache_def Let_def AList.update_conv' map_of_evict oldest_def)
  with oldest_props [OF len dist]
  show "\<exists>evicted. evicted \<subseteq> set cache \<and> card evicted = 200
           \<and> (\<forall>a \<in> evicted. \<forall>b \<in> set cache - evicted.
                 (case lastAccessed (snd a) of Some t \<Rightarrow> t | None \<Rightarrow> 0)
                   \<le> (case lastAccessed (snd b) of Some t \<Rightarrow> t | None \<Rightarrow> 0))
           \<and> map_of (setCache now key res ttlArg cache)
               = (map_of cache |` (- fst ` evicted))(key \<mapsto> \<lparr>result = res, timestamp = now,
                    ttl = (case ttlArg of Some t \<Rightarrow> t | None \<Rightarrow> 3600000),
                    lastAccessed = Some now\<rparr>)"
    unfolding accessTime_def by blast
qed (simp_all add: getFromCache_def setCache_def Let_def AList.update_conv' AList.delete_conv')

text \<open>Facts about the full cache of the example.\<close>

lemma fullCache_full: "length fullCache \<ge> 1000 \<and> distinct (map fst fullCache)"
  by (simp add: fullCache_def distinct_map comp_def inj_on_def)

lemma fullCache_card: "card (set fullCache) = 1000"
proof -
  have "distinct fullCache" using fullCache_full by (simp add: distinct_map)
  then have "card (set fullCache) = length fullCache" by (rule distinct_card)
  then show ?thesis by (simp add: fullCache_def)
qed

lemma fullCache_newest:
  "x \<in> set fullCache \<Longrightarrow> (case lastAccessed (snd x) of Some t \<Rightarrow> t | None \<Rightarrow> 0) \<ge> 5000
    \<Longrightarrow> fst x = []"
  by (auto simp: fullCache_def split: if_splits)

lemma fullCache_least:
  "x \<in> set fullCache \<Longrightarrow> (case lastAccessed (snd x) of Some t \<Rightarrow> t | None \<Rightarrow> 0) \<le> 1
    \<Longrightarrow> fst x = ''k''"
  by (auto simp: fullCache_def le_Suc_eq split: if_splits)

lemma fullCache_lookup:
  "map_of fullCache []
     = Some \<lparr>result = (), timestamp = 0, ttl = 3600000, lastAccessed = Some 5000\<rparr>"
  "map_of fullCache ''k''
     = Some \<lparr>result = (), timestamp = 0, ttl = 3600000, lastAccessed = Some 1\<rparr>"
proof -
  have "([], \<lparr>result = (), timestamp = 0, ttl = 3600000, lastAccessed = Some 5000\<rparr>)
      \<in> set fullCache"
    unfolding fullCache_def by (auto intro!: image_eqI [where x = 0])
  then show "map_of fullCache []
      = Some \<lparr>result = (), timestamp = 0, ttl = 3600000, lastAccessed = Some 5000\<rparr>"
    using fullCache_full by (intro map_of_is_SomeI) simp_all
  have "(''k'', \<lparr>result = (), timestamp = 0, ttl = 3600000, lastAccessed = Some 1\<rparr>)
      \<in> set fullCache"
    unfolding fullCache_def by (auto intro!: image_eqI [where x = 1])
  then show "map_of fullCache ''k''
      = Some \<lparr>result = (), timestamp = 0, ttl = 3600000, lastAccessed = Some 1\<rparr>"
    using fullCache_full by (intro map_of_is_SomeI) simp_all
qed

text \<open>
  The witness. On the full cache the theorem decides what a store does to the first two
  entries inserted: the first, read most recently, stays; the second, read longest ago,
  goes.
\<close>

theorem cache_get_set_witness:
  "(map_of oneEntry ''x'' = None \<and> getFromCache 50 ''x'' oneEntry = (None, oneEntry))
   \<and> (map_of oneEntry ''k''
        = Some \<lparr>result = ''v'', timestamp = 0, ttl = 100, lastAccessed = Some 0\<rparr>
      \<and> fst (getFromCache 101 ''k'' oneEntry) = None
      \<and> map_of (snd (getFromCache 101 ''k'' oneEntry)) = (map_of oneEntry)(''k'' := None)
      \<and> fst (getFromCache 100 ''k'' oneEntry) = Some ''v''
      \<and> map_of (snd (getFromCache 100 ''k'' oneEntry))
          = (map_of oneEntry)(''k'' \<mapsto>
               \<lparr>result = ''v'', timestamp = 0, ttl = 100, lastAccessed = Some 100\<rparr>))
   \<and> (length oneEntry < 1000
      \<and> map_of (setCache 7 ''n'' ''w'' None oneEntry)
          = (map_of oneEntry)(''n'' \<mapsto>
               \<lparr>result = ''w'', timestamp = 7, ttl = 3600000, lastAccessed = Some 7\<rparr>))
   \<and> (length fullCache \<ge> 1000 \<and> distinct (map fst fullCache)
      \<and> map_of (setCache 9000 ''new'' () (Some 60000) fullCache) []
          = Some \<lparr>result = (), timestamp = 0, ttl = 3600000, lastAccessed = Some 5000\<rparr>
      \<and> map_of (setCache 9000 ''new'' () (Some 60000) fullCache) ''k'' = None
      \<and> map_of (setCache 9000 ''new'' () (Some 60000) fullCache) ''new''
          = Some \<lparr>result = (), timestamp = 9000, ttl = 60000, lastAccessed = Some 9000\<rparr>)"
proof -
  let ?e = "\<lparr>result = ''v'', timestamp = 0, ttl = 100, lastAccessed = Some (0::int)\<rparr>"
  have h1: "map_of oneEntry ''x'' = None" and h2: "map_of oneEntry ''k'' = Some ?e"
    and h4: "length oneEntry < 1000"
    by (simp_all add: oneEntry_def)
  have a: "getFromCache 50 ''x'' oneEntry = (None, oneEntry)"
    using cache_get_set [of oneEntry "''x''" 50] h1 by simp
  have b: "fst (getFromCache 101 ''k'' oneEntry) = None
      \<and> map_of (snd (getFromCache 101 ''k'' oneEntry)) = (map_of oneEntry)(''k'' := None)"
    using cache_get_set [of oneEntry "''k''" 101 ?e] h2 by simp
  have c: "fst (getFromCache 100 ''k'' oneEntry) = Some ''v''
      \<and> map_of (snd (getFromCache 100 ''k'' oneEntry))
          = (map_of oneEntry)(''k'' \<mapsto>
               \<lparr>result = ''v'', timestamp = 0, ttl = 100, lastAccessed = Some 100\<rparr>)"
    using cache_get_set [of oneEntry "''k''" 100 ?e] h2 by simp
  have d: "map_of (setCache 7 ''n'' ''w'' None oneEntry)
          = (map_of oneEntry)(''n'' \<mapsto>
               \<lparr>result = ''w'', timestamp = 7, ttl = 3600000, lastAccessed = Some 7\<rparr>)"
    using cache_get_set [where cache = oneEntry and key = "''n''" and now = 7 and res = "''w''"
        and ttlArg = None] h4
    by simp
  let ?la = "\<lambda>x :: string \<times> unit cache_entry.
               case lastAccessed (snd x) of Some t \<Rightarrow> t | None \<Rightarrow> 0"
  let ?e0 = "([], \<lparr>result = (), timestamp = 0, ttl = 3600000, lastAccessed = Some 5000\<rparr>)"
  let ?e1 = "(''k'', \<lparr>result = (), timestamp = 0, ttl = 3600000, lastAccessed = Some 1\<rparr>)"
  let ?after = "setCache 9000 ''new'' () (Some 60000) fullCache"
  have "\<exists>evicted. evicted \<subseteq> set fullCache \<and> card evicted = 200
           \<and> (\<forall>a \<in> evicted. \<forall>b \<in> set fullCache - evicted. ?la a \<le> ?la b)
           \<and> map_of ?after
               = (map_of fullCache |` (- fst ` evicted))(''new'' \<mapsto>
                    \<lparr>result = (), timestamp = 9000, ttl = 60000, lastAccessed = Some 9000\<rparr>)"
    using cache_get_set [where cache = fullCache and key = "''new''" and now = 9000 and res = "()"
        and ttlArg = "Some 60000"] fullCache_full
    by simp
  then obtain E where sub: "E \<subseteq> set fullCache" and card: "card E = 200"
    and ord: "\<forall>a \<in> E. \<forall>b \<in> set fullCache - E. ?la a \<le> ?la b"
    and res: "map_of ?after
               = (map_of fullCache |` (- fst ` E))(''new'' \<mapsto>
                    \<lparr>result = (), timestamp = 9000, ttl = 60000, lastAccessed = Some 9000\<rparr>)"
    by blast
  have in0: "?e0 \<in> set fullCache" and in1: "?e1 \<in> set fullCache"
    using fullCache_lookup by (auto dest: map_of_SomeD)
  have keys: "\<And>x y. x \<in> set fullCache \<Longrightarrow> y \<in> set fullCache \<Longrightarrow> fst x = fst y \<Longrightarrow> x = y"
    using fullCache_full by (meson distinct_map inj_onD)
  have not0: "[] \<notin> fst ` E"
  proof
    assume "[] \<in> fst ` E"
    then obtain x where x: "x \<in> E" "fst x = []" by auto
    with sub keys [of x ?e0] in0 have x0: "x = ?e0" by auto
    have "set fullCache - E = {}"
    proof (rule ccontr)
      assume "set fullCache - E \<noteq> {}"
      then obtain y where y: "y \<in> set fullCache" "y \<notin> E" by auto
      with ord x have "?la x \<le> ?la y" by auto
      with x0 have "?la y \<ge> 5000" by simp
      with y fullCache_newest [of y] have "fst y = []" by simp
      with keys [of y ?e0] y in0 x0 x show False by auto
    qed
    with sub have "E = set fullCache" by auto
    with card fullCache_card show False by simp
  qed
  have is1: "''k'' \<in> fst ` E"
  proof (rule ccontr)
    assume n: "''k'' \<notin> fst ` E"
    then have e1: "?e1 \<in> set fullCache - E" using in1 by force
    have "E = {}"
    proof (rule ccontr)
      assume "E \<noteq> {}"
      then obtain x where x: "x \<in> E" by auto
      with ord e1 have "?la x \<le> ?la ?e1" by blast
      then have "?la x \<le> 1" by simp
      with x sub fullCache_least [of x] have "fst x = ''k''" by auto
      with x n show False by force
    qed
    with card show False by simp
  qed
  have f: "map_of ?after []
          = Some \<lparr>result = (), timestamp = 0, ttl = 3600000, lastAccessed = Some 5000\<rparr>
      \<and> map_of ?after ''k'' = None
      \<and> map_of ?after ''new''
          = Some \<lparr>result = (), timestamp = 9000, ttl = 60000, lastAccessed = Some 9000\<rparr>"
    using res not0 is1 fullCache_lookup by (simp add: restrict_map_def)
  from h1 h2 h4 a b c d f fullCache_full show ?thesis by blast
qed

section \<open>Tracking: properties\<close>

lemma trackRun_failure:
  assumes "\<not> isApiDown now t" and "\<not> sinkOk (snk (sinkCalls t))"
  shows "apiFailureCount (trackRun snk now later t) = apiFailureCount t + 1"
    and "lastApiFailure (trackRun snk now later t) = later"
    and "sinkCalls (trackRun snk now later t) = sinkCalls t + 1"
  using assms
  by (auto simp: trackRun_def sinkOk_def recordApiFailure_def warn_def Let_def
      split: sink_outcome.splits)

lemma trackRun_success:
  assumes "\<not> isApiDown now t" and "sinkOk (snk (sinkCalls t))"
  shows "apiFailureCount (trackRun snk now later t) = 0"
    and "sinkCalls (trackRun snk now later t) = sinkCalls t + 1"
  using assms
  by (auto simp: trackRun_def sinkOk_def resetApiFailures_def Let_def
      split: sink_outcome.splits)

lemma trackRun_invokes:
  "\<not> isApiDown now t \<Longrightarrow> sinkCalls (trackRun snk now later t) = sinkCalls t + 1"
  by (auto simp: trackRun_def recordApiFailure_def resetApiFailures_def warn_def Let_def
      split: sink_outcome.splits)

lemma trackRun_skips: "isApiDown now t \<Longrightarrow> trackRun snk now later t = t"
  by (simp add: trackRun_def)

text \<open>Failures in a row, up to the threshold: each attempt reaches the sink and counts.\<close>

lemma trackRuns_failures:
  assumes "apiFailureCount t + length runs \<le> 5"
    and "\<forall>k < length runs. \<not> sinkOk (snk (sinkCalls t + k))"
  shows "apiFailureCount (trackRuns snk runs t) = apiFailureCount t + length runs
       \<and> sinkCalls (trackRuns snk runs t) = sinkCalls t + length runs
       \<and> lastApiFailure (trackRuns snk runs t)
           = (if runs = [] then lastApiFailure t else snd (last runs))"
  using assms
proof (induction runs arbitrary: t)
  case Nil
  then show ?case by simp
next
  case (Cons x runs)
  obtain now later where x: "x = (now, later)" by (cases x)
  let ?t = "trackRun snk now later t"
  from Cons.prems have up: "\<not> isApiDown now t" by (simp add: isApiDown_def)
  from Cons.prems have bad: "\<not> sinkOk (snk (sinkCalls t))" by force
  note step = trackRun_failure [of now t snk later, OF up bad]
  have h1: "\<forall>k < length runs. \<not> sinkOk (snk (sinkCalls ?t + k))"
    using Cons.prems(2) step(3) by (auto simp: less_Suc_eq_0_disj)
  have h2: "apiFailureCount ?t + length runs \<le> 5" using Cons.prems(1) step(1) by simp
  have "apiFailureCount (trackRuns snk runs ?t) = apiFailureCount ?t + length runs
       \<and> sinkCalls (trackRuns snk runs ?t) = sinkCalls ?t + length runs
       \<and> lastApiFailure (trackRuns snk runs ?t)
           = (if runs = [] then lastApiFailure ?t else snd (last runs))"
    by (rule Cons.IH [OF h2 h1])
  then show ?case using step by (simp add: x)
qed

text \<open>
  C8. The breaker is open exactly when the failure count has reached 5 and the last
  failure is less than 60000 ms old. A tracking attempt with the breaker open does
  nothing: the sink is not invoked and no state changes. With the breaker closed the
  attempt invokes the sink once; a 2xx answer resets the failure count to zero; any other
  answer, a network error or the timeout increments the count and stamps the failure
  time. After five failures in a row from a count of zero the sink has been invoked five
  times and the count is 5; a further attempt less than 60 seconds after the last
  failure leaves everything as it is, and one 60 seconds or more after it invokes the
  sink again.
\<close>

theorem circuit_breaker:
  "(isApiDown now t \<longleftrightarrow> apiFailureCount t \<ge> 5 \<and> now - lastApiFailure t < 60000)
   \<and> (isApiDown now t \<longrightarrow> trackRun snk now later t = t)
   \<and> (\<not> isApiDown now t \<longrightarrow> sinkCalls (trackRun snk now later t) = sinkCalls t + 1)
   \<and> (\<not> isApiDown now t \<and> sinkOk (snk (sinkCalls t)) \<longrightarrow>
        apiFailureCount (trackRun snk now later t) = 0)
   \<and> (\<not> isApiDown now t \<and> \<not> sinkOk (snk (sinkCalls t)) \<longrightarrow>
        apiFailureCount (trackRun snk now later t) = apiFailureCount t + 1
        \<and> lastApiFailure (trackRun snk now later t) = later)
   \<and> (apiFailureCount t = 0 \<and> length runs = 5
        \<and> (\<forall>k < 5. \<not> sinkOk (snk (sinkCalls t + k))) \<longrightarrow>
        (let t5 = trackRuns snk runs t
         in sinkCalls t5 = sinkCalls t + 5 \<and> apiFailureCount t5 = 5
            \<and> (now - snd (last runs) < 60000 \<longrightarrow> trackRun snk now later t5 = t5)
            \<and> (now - snd (last runs) \<ge> 60000 \<longrightarrow>
                 sinkCalls (trackRun snk now later t5) = sinkCalls t5 + 1)))"
proof (intro conjI impI)
  assume a: "apiFailureCount t = 0 \<and> length runs = 5
        \<and> (\<forall>k < 5. \<not> sinkOk (snk (sinkCalls t + k)))"
  then have ne: "runs \<noteq> []" by auto
  from a have "apiFailureCount (trackRuns snk runs t) = apiFailureCount t + length runs
       \<and> sinkCalls (trackRuns snk runs t) = sinkCalls t + length runs
       \<and> lastApiFailure (trackRuns snk runs t)
           = (if runs = [] then lastApiFailure t else snd (last runs))"
    by (intro trackRuns_failures) auto
  with a ne show "let t5 = trackRuns snk runs t
         in sinkCalls t5 = sinkCalls t + 5 \<and> apiFailureCount t5 = 5
            \<and> (now - snd (last runs) < 60000 \<longrightarrow> trackRun snk now later t5 = t5)
            \<and> (now - snd (last runs) \<ge> 60000 \<longrightarrow>
                 sinkCalls (trackRun snk now later t5) = sinkCalls t5 + 1)"
    using trackRun_invokes [of now "trackRuns snk runs t" snk later]
      trackRun_skips [of now "trackRuns snk runs t" snk later]
    by (simp add: Let_def isApiDown_def)
qed (use trackRun_failure [of now t snk later] trackRun_success [of now t snk later]
       trackRun_invokes [of now t snk later] trackRun_skips [of now t snk later]
     in \<open>simp_all add: isApiDown_def\<close>)

theorem circuit_breaker_witness:
  "(isApiDown 2000 \<lparr>apiFailureCount = 5, lastApiFailure = 1000, sinkCalls = 5, warnings = []\<rparr>
    \<and> trackRun (\<lambda>k. Response 200 ''OK'') 2000 2100
         \<lparr>apiFailureCount = 5, lastApiFailure = 1000, sinkCalls = 5, warnings = []\<rparr>
       = \<lparr>apiFailureCount = 5, lastApiFailure = 1000, sinkCalls = 5, warnings = []\<rparr>)
   \<and> (\<not> isApiDown 61000 \<lparr>apiFailureCount = 5, lastApiFailure = 1000, sinkCalls = 5, warnings = []\<rparr>
    \<and> sinkOk (Response 200 ''OK'')
    \<and> sinkCalls (trackRun (\<lambda>k. Response 200 ''OK'') 61000 61100
         \<lparr>apiFailureCount = 5, lastApiFailure = 1000, sinkCalls = 5, warnings = []\<rparr>) = 5 + 1
    \<and> apiFailureCount (trackRun (\<lambda>k. Response 200 ''OK'') 61000 61100
         \<lparr>apiFailureCount = 5, lastApiFailure = 1000, sinkCalls = 5, warnings = []\<rparr>) = 0)
   \<and> (\<not> isApiDown 10 freshTracker \<and> \<not> sinkOk (Response 500 ''Internal Server Error'')
    \<and> apiFailureCount (trackRun (\<lambda>k. Response 500 ''Internal Server Error'') 10 20 freshTracker)
        = apiFailureCount freshTracker + 1
    \<and> lastApiFailure (trackRun (\<lambda>k. Response 500 ''Internal Server Error'') 10 20 freshTracker)
        = 20)
   \<and> (apiFailureCount freshTracker = 0
    \<and> sinkCalls (trackRuns (\<lambda>k. NetworkError) [(0, 1), (10, 11), (20, 21), (30, 31), (40, 41)]
         freshTracker) = sinkCalls freshTracker + 5
    \<and> apiFailureCount (trackRuns (\<lambda>k. NetworkError)
         [(0, 1), (10, 11), (20, 21), (30, 31), (40, 41)] freshTracker) = 5
    \<and> trackRun (\<lambda>k. NetworkError) 50000 50001
         (trackRuns (\<lambda>k. NetworkError) [(0, 1), (10, 11), (20, 21), (30, 31), (40, 41)]
            freshTracker)
       = trackRuns (\<lambda>k. NetworkError) [(0, 1), (10, 11), (20, 21), (30, 31), (40, 41)]
            freshTracker
    \<and> sinkCalls (trackRun (\<lambda>k. NetworkError) 60041 60042
         (trackRuns (\<lambda>k. NetworkError) [(0, 1), (10, 11), (20, 21), (30, 31), (40, 41)]
            freshTracker))
       = sinkCalls (trackRuns (\<lambda>k. NetworkError)
            [(0, 1), (10, 11), (20, 21), (30, 31), (40, 41)] freshTracker) + 1)"
proof -
  let ?open = "\<lparr>apiFailureCount = 5, lastApiFailure = 1000, sinkCalls = 5, warnings = []\<rparr>"
  let ?ok = "\<lambda>k::nat. Response 200 ''OK''"
  let ?bad = "\<lambda>k::nat. Response 500 ''Internal Server Error''"
  let ?net = "\<lambda>k::nat. NetworkError"
  let ?runs = "[(0, 1), (10, 11), (20, 21), (30, 31), (40, 41)] :: (int \<times> int) list"
  have h1: "isApiDown 2000 ?open" and h2: "\<not> isApiDown 61000 ?open"
    and h3: "\<not> isApiDown 10 freshTracker" and h4: "apiFailureCount freshTracker = 0"
    by (simp_all add: isApiDown_def freshTracker_def)
  have k1: "sinkOk (Response 200 ''OK'')" and k2: "\<not> sinkOk (Response 500 ''Internal Server Error'')"
    and k3: "\<not> sinkOk NetworkError"
    by (simp_all add: sinkOk_def)
  have a: "trackRun ?ok 2000 2100 ?open = ?open"
    using circuit_breaker [of 2000 ?open ?ok 2100] h1 by simp
  have b: "sinkCalls (trackRun ?ok 61000 61100 ?open) = 5 + 1
      \<and> apiFailureCount (trackRun ?ok 61000 61100 ?open) = 0"
    using circuit_breaker [of 61000 ?open ?ok 61100] h2 k1 by simp
  have c: "apiFailureCount (trackRun ?bad 10 20 freshTracker) = apiFailureCount freshTracker + 1
      \<and> lastApiFailure (trackRun ?bad 10 20 freshTracker) = 20"
    using circuit_breaker [of 10 freshTracker ?bad 20] h3 k2 by simp
  have d: "sinkCalls (trackRuns ?net ?runs freshTracker) = sinkCalls freshTracker + 5
      \<and> apiFailureCount (trackRuns ?net ?runs freshTracker) = 5
      \<and> trackRun ?net 50000 50001 (trackRuns ?net ?runs freshTracker)
          = trackRuns ?net ?runs freshTracker"
    using circuit_breaker [of 50000 freshTracker ?net 50001 ?runs] h4 k3
    by (simp add: Let_def del: trackRuns.simps)
  have f: "sinkCalls (trackRun ?net 60041 60042 (trackRuns ?net ?runs freshTracker))
      = sinkCalls (trackRuns ?net ?runs freshTracker) + 1"
    using circuit_breaker [of 60041 freshTracker ?net 60042 ?runs] h4 k3
    by (simp add: Let_def del: trackRuns.simps)
  from h1 h2 h3 h4 k1 k2 a b c d f show ?thesis by blast
qed

text \<open>
  C9, as amended. A 401 or 403 answer of the sink is handled as every other failed
  answer: the attempt counts as a failure, the failure time is stamped, and a warning is
  printed, each time. Tracking is not switched off: the next attempt invokes the sink
  again, unless the breaker is open, that is, unless the count has reached 5 and the
  failure is less than 60 seconds old.
\<close>

theorem tracking_after_401:
  "\<not> isApiDown now t \<and> snk (sinkCalls t) = Response st txt \<and> (st = 401 \<or> st = 403) \<longrightarrow>
     (let t' = trackRun snk now later t
      in apiFailureCount t' = apiFailureCount t + 1 \<and> lastApiFailure t' = later
         \<and> sinkCalls t' = sinkCalls t + 1
         \<and> warnings t' = warnings t @
             [''[CostLens] Invalid API key - tracking disabled. Your app will continue to work.'']
         \<and> (apiFailureCount t' < 5 \<or> now' - later \<ge> 60000 \<longrightarrow>
              sinkCalls (trackRun snk now' later' t') = sinkCalls t' + 1))"
  by (auto simp: trackRun_def isApiDown_def recordApiFailure_def warn_def resetApiFailures_def
        Let_def
      split: sink_outcome.splits)

theorem tracking_after_401_witness:
  "\<not> isApiDown 0 freshTracker
   \<and> apiFailureCount (trackRun (\<lambda>k. Response 401 ''Unauthorized'') 0 10 freshTracker) = 1
   \<and> lastApiFailure (trackRun (\<lambda>k. Response 401 ''Unauthorized'') 0 10 freshTracker) = 10
   \<and> sinkCalls (trackRun (\<lambda>k. Response 401 ''Unauthorized'') 0 10 freshTracker) = 1
   \<and> sinkCalls (trackRun (\<lambda>k. Response 401 ''Unauthorized'') 1000 1010
        (trackRun (\<lambda>k. Response 401 ''Unauthorized'') 0 10 freshTracker)) = 2"
proof -
  let ?snk = "\<lambda>k::nat. Response 401 ''Unauthorized''"
  have h: "\<not> isApiDown 0 freshTracker" by (simp add: isApiDown_def freshTracker_def)
  have "apiFailureCount (trackRun ?snk 0 10 freshTracker) = 1
      \<and> lastApiFailure (trackRun ?snk 0 10 freshTracker) = 10
      \<and> sinkCalls (trackRun ?snk 0 10 freshTracker) = 1
      \<and> sinkCalls (trackRun ?snk 1000 1010 (trackRun ?snk 0 10 freshTracker)) = 2"
    using tracking_after_401 [of 0 freshTracker ?snk 401 "''Unauthorized''" 10 1000 1010] h
    by (simp add: Let_def freshTracker_def)
  with h show ?thesis by blast
qed

text \<open>
  C9 as stated fails: after a 401 answer the next tracking attempt, one second later,
  invokes the sink again, and the warning is printed a second time.
\<close>

theorem tracking_not_disabled_by_401:
  "sinkCalls (trackRuns (\<lambda>k. Response 401 ''Unauthorized'') [(0, 10), (1000, 1010)] freshTracker)
     = 2
   \<and> length (warnings (trackRuns (\<lambda>k. Response 401 ''Unauthorized'') [(0, 10), (1000, 1010)]
        freshTracker)) = 2
   \<and> sinkCalls (trackRun_instant (Some ''key'') (\<lambda>k. Response 401 ''Unauthorized'') 1000 1010
        (trackRun_instant (Some ''key'') (\<lambda>k. Response 401 ''Unauthorized'') 0 10 freshTracker))
     = 2"
  by (simp add: trackRun_instant_def trackRun_def isApiDown_def recordApiFailure_def warn_def
      freshTracker_def)

section \<open>Cache key: properties\<close>

text \<open>
  C10. \<open>getCacheKey\<close> replaces a falsy temperature by 0.7: for every provider, model,
  message list and \<open>max_tokens\<close>, the request with temperature 0, the one with temperature
  0.7 and the one with no temperature have the same key, whatever the serialisation, and
  so a cache look-up cannot tell them apart.
\<close>

theorem cache_key_falsy_temperature:
  "getCacheKey str prov (p\<lparr>temperature := Some 0\<rparr>)
     = getCacheKey str prov (p\<lparr>temperature := Some (7 / 10)\<rparr>)
   \<and> getCacheKey str prov (p\<lparr>temperature := Some 0\<rparr>)
     = getCacheKey str prov (p\<lparr>temperature := None\<rparr>)
   \<and> getFromCache now (getCacheKey str prov (p\<lparr>temperature := Some 0\<rparr>)) cache
     = getFromCache now (getCacheKey str prov (p\<lparr>temperature := Some (7 / 10)\<rparr>)) cache
   \<and> getFromCache now (getCacheKey str prov (p\<lparr>temperature := Some 0\<rparr>)) cache
     = getFromCache now (getCacheKey str prov (p\<lparr>temperature := None\<rparr>)) cache"
  by (simp add: getCacheKey_def normalize_def)

section \<open>Call orchestrator: properties\<close>

text \<open>
  The quality gate of the OpenAI wrapper. Take a call that reaches the provider (no
  cost-limit error and no cache hit) and obtains a response from a model other than the
  requested one.
  When the score of the processed response, from the caller's validator when there is
  one and from the default scorer otherwise, is below 0.7, the call invokes the provider
  exactly once more, with the originally requested model and nothing after it, and ends
  with the outcome of that invocation passed through the after hooks: its response,
  unchanged when no middleware is configured, or its error.
\<close>

theorem quality_gate_reissues_original:
  assumes "prepareOpenAI cfg e p0 options w = Inr (p, w1)"
    and "callWithFallback cfg e options p w1 = (Some r, usedModel, lastError, w2)"
    and "usedModel \<noteq> model p0"
    and "(case qualityValidator cfg of
            Some validator \<Rightarrow>
              validator
                (case choices (runMiddleware after (middleware cfg) r) of [] \<Rightarrow> [] | c # cs \<Rightarrow> c)
                (stringifyMessages e (messages p))
          | None \<Rightarrow>
              analyzeResponse e
                (case choices (runMiddleware after (middleware cfg) r) of [] \<Rightarrow> [] | c # cs \<Rightarrow> c)
                (stringifyMessages e (messages p))) < 7 / 10"
  shows "wrapOpenAI_create cfg e p0 options w =
           (map_sum id (runMiddleware after (middleware cfg))
              (provider e (length (providerCalls w2)) (p\<lparr>model := model p0\<rparr>)),
            w2\<lparr>providerCalls := providerCalls w2 @ [model p0]\<rparr>)
         \<and> (middleware cfg = [] \<longrightarrow>
              fst (wrapOpenAI_create cfg e p0 options w) =
                provider e (length (providerCalls w2)) (p\<lparr>model := model p0\<rparr>))"
  using assms
  by (auto simp: wrapOpenAI_create_def finishOpenAI_def qualityScore_def callProvider_def Let_def
        runMiddleware_def
      split: sum.splits option.splits)

theorem quality_gate_reissues_original_witness:
  "prepareOpenAI strictConfig echoModel gpt4Hi noOptions freshWorld
     = Inr (gpt4Hi\<lparr>model := ''gpt-3.5-turbo''\<rparr>, freshWorld)
   \<and> callWithFallback strictConfig echoModel noOptions (gpt4Hi\<lparr>model := ''gpt-3.5-turbo''\<rparr>)
        freshWorld
     = (Some \<lparr>choices = [''gpt-3.5-turbo''], prompt_tokens = 5, completion_tokens = 2,
              total_tokens = 7\<rparr>,
        ''gpt-3.5-turbo'', Undefined, freshWorld\<lparr>providerCalls := [''gpt-3.5-turbo'']\<rparr>)
   \<and> ''gpt-3.5-turbo'' \<noteq> model gpt4Hi
   \<and> wrapOpenAI_create strictConfig echoModel gpt4Hi noOptions freshWorld
     = (Inr \<lparr>choices = [''gpt-4''], prompt_tokens = 5, completion_tokens = 2, total_tokens = 7\<rparr>,
        freshWorld\<lparr>providerCalls := [''gpt-3.5-turbo'', ''gpt-4'']\<rparr>)"
proof -
  let ?p = "gpt4Hi\<lparr>model := ''gpt-3.5-turbo''\<rparr>"
  let ?r = "\<lparr>choices = [''gpt-3.5-turbo''], prompt_tokens = 5, completion_tokens = 2,
             total_tokens = 7\<rparr>"
  let ?w2 = "freshWorld\<lparr>providerCalls := [''gpt-3.5-turbo'']\<rparr>"
  have h1: "prepareOpenAI strictConfig echoModel gpt4Hi noOptions freshWorld = Inr (?p, freshWorld)"
    by code_simp
  have h2: "callWithFallback strictConfig echoModel noOptions ?p freshWorld
      = (Some ?r, ''gpt-3.5-turbo'', Undefined, ?w2)"
    by code_simp
  have h3: "''gpt-3.5-turbo'' \<noteq> model gpt4Hi" by (simp add: gpt4Hi_def)
  have h4: "(case qualityValidator strictConfig of
            Some validator \<Rightarrow>
              validator
                (case choices (runMiddleware after (middleware strictConfig) ?r) of
                   [] \<Rightarrow> [] | c # cs \<Rightarrow> c)
                (stringifyMessages echoModel (messages ?p))
          | None \<Rightarrow>
              analyzeResponse echoModel
                (case choices (runMiddleware after (middleware strictConfig) ?r) of
                   [] \<Rightarrow> [] | c # cs \<Rightarrow> c)
                (stringifyMessages echoModel (messages ?p))) < 7 / 10"
    by (simp add: strictConfig_def)
  have "wrapOpenAI_create strictConfig echoModel gpt4Hi noOptions freshWorld
      = (Inr \<lparr>choices = [''gpt-4''], prompt_tokens = 5, completion_tokens = 2, total_tokens = 7\<rparr>,
         freshWorld\<lparr>providerCalls := [''gpt-3.5-turbo'', ''gpt-4'']\<rparr>)"
    using quality_gate_reissues_original [OF h1 h2 h3 h4]
    by (simp add: strictConfig_def defaultConfig_def runMiddleware_def echoModel_def gpt4Hi_def
        freshWorld_def)
  with h1 h2 h3 show ?thesis by blast
qed

text \<open>
  The OpenAI wrapper on a 4xx rejection: with at least one attempt allowed, a call that
  reaches the provider invokes it once, tries no fallback model, tracks the error and
  rejects with it.
\<close>

lemma callWithFallback_4xx:
  assumes "provider e (length (providerCalls w)) (p\<lparr>model := model p\<rparr>) = Inl err"
    and "status err = Some st" and "400 \<le> st" and "st < 500"
    and "0 < defaultRetries (maxRetries cfg)"
  shows "callWithFallback cfg e options p w =
           (None, model p, err, w\<lparr>providerCalls := providerCalls w @ [model p]\<rparr>)"
  using assms
  by (simp add: callWithFallback_def retryWithBackoff_def retryLoop.simps [of _ _ _ 0]
      callProvider_def is4xx_def Let_def)

lemma wrapOpenAI_create_4xx:
  assumes "prepareOpenAI cfg e p0 options w = Inr (p, w1)"
    and "provider e (length (providerCalls w1)) (p\<lparr>model := model p\<rparr>) = Inl err"
    and "status err = Some st" and "400 \<le> st" and "st < 500"
    and "0 < defaultRetries (maxRetries cfg)"
  shows "wrapOpenAI_create cfg e p0 options w =
           (Inl err, track e (w1\<lparr>providerCalls := providerCalls w1 @ [model p]\<rparr>))"
  using assms(1,3) callWithFallback_4xx [OF assms(2-6), of options]
  by (cases err) (simp_all add: wrapOpenAI_create_def finishOpenAI_def trackError_def)

text \<open>
  C2 fails on the Anthropic wrapper. With the default configuration and a provider that
  always rejects with status 400, a call for \<open>claude-3-opus\<close> (routed to
  \<open>claude-3-haiku\<close>) invokes the provider four times, once for the routed model and once
  for each of its three fallback models, before it rejects with the error. The OpenAI
  wrapper, on the same provider, invokes it once.
\<close>

theorem wrapAnthropic_falls_back_on_400:
  "wrapAnthropic_create defaultConfig always400 opusHello noOptions freshWorld
     = (Inl (Thrown (Some 400) ''Bad Request''),
        freshWorld\<lparr>providerCalls :=
                     [''claude-3-haiku'', ''gpt-3.5-turbo'', ''gemini-1.5-flash'',
                      ''claude-3-sonnet''],
                   tracking := freshTracker\<lparr>sinkCalls := 1\<rparr>\<rparr>)
   \<and> wrapOpenAI_create defaultConfig always400 gpt4Hi noOptions freshWorld
     = (Inl (Thrown (Some 400) ''Bad Request''),
        freshWorld\<lparr>providerCalls := [''gpt-3.5-turbo''],
                   tracking := freshTracker\<lparr>sinkCalls := 1\<rparr>\<rparr>)"
  by code_simp

text \<open>
  The Anthropic wrapper has no quality gate: neither the caller's validator nor the
  default scorer has any influence on a call.
\<close>

lemma callProvider_ignores_scorer:
  "callProvider (e\<lparr>analyzeResponse := s\<rparr>) p m = callProvider e p m"
  by (rule ext) (simp add: callProvider_def)

lemma trackError_ignores_scorer:
  "trackError (e\<lparr>analyzeResponse := s\<rparr>) err w = trackError e err w"
  by (simp add: trackError_def track_def split: error.splits)

lemma tryModels_ignores_validator:
  "tryModels (cfg\<lparr>qualityValidator := v\<rparr>) (e\<lparr>analyzeResponse := s\<rparr>) options p ms lastError w
     = tryModels cfg e options p ms lastError w"
  by (induction ms arbitrary: lastError w)
     (simp_all add: callProvider_ignores_scorer trackError_ignores_scorer track_def Let_def
        split: prod.splits sum.splits)

lemma selectOptimalModel_ignores_validator:
  "selectOptimalModel (cfg\<lparr>qualityValidator := v\<rparr>) requestedModel msgs
     = selectOptimalModel cfg requestedModel msgs"
  by (simp add: selectOptimalModel_def)

lemma costCheck_ignores_validator:
  "costCheck (cfg\<lparr>qualityValidator := v\<rparr>) options p = costCheck cfg options p"
  by (simp add: costCheck_def costLimitOf_def)

lemma fallbackChain_ignores_validator:
  "fallbackChain (cfg\<lparr>qualityValidator := v\<rparr>) options p = fallbackChain cfg options p"
  by (simp add: fallbackChain_def)

lemma wrapAnthropic_ignores_validator:
  "wrapAnthropic_create (cfg\<lparr>qualityValidator := v\<rparr>) (e\<lparr>analyzeResponse := s\<rparr>) p0 options w
     = wrapAnthropic_create cfg e p0 options w"
  by (simp add: wrapAnthropic_create_def tryModels_ignores_validator
      selectOptimalModel_ignores_validator costCheck_ignores_validator
      fallbackChain_ignores_validator Let_def
      del: tryModels.simps split: option.splits prod.splits)

text \<open>
  C1 fails on the Anthropic wrapper. With the default configuration and a validator that
  scores every response 0.5, a call for \<open>claude-3-opus\<close> is routed to \<open>claude-3-haiku\<close>,
  invokes the provider once, with the routed model, and returns that response: the
  validator is not consulted and the requested model is never called. The OpenAI
  wrapper, with the same configuration and provider, calls the routed model and then the
  requested \<open>gpt-4\<close>, and returns the second response.
\<close>

theorem wrapAnthropic_skips_quality_gate:
  "wrapAnthropic_create strictConfig echoModel opusHello noOptions freshWorld
     = (Inr \<lparr>choices = [''claude-3-haiku''], prompt_tokens = 5, completion_tokens = 2,
             total_tokens = 7\<rparr>,
        freshWorld\<lparr>providerCalls := [''claude-3-haiku''],
                   tracking := freshTracker\<lparr>sinkCalls := 1\<rparr>\<rparr>)
   \<and> wrapOpenAI_create strictConfig echoModel gpt4Hi noOptions freshWorld
     = (Inr \<lparr>choices = [''gpt-4''], prompt_tokens = 5, completion_tokens = 2, total_tokens = 7\<rparr>,
        freshWorld\<lparr>providerCalls := [''gpt-3.5-turbo'', ''gpt-4'']\<rparr>)"
  by code_simp

end
